theory Spec2Isabelle
  imports Complex_Main
begin

section \<open>Keys and settings of interactive-server.py\<close>

definition KEY_SCRIBBLE_FGD :: string where "KEY_SCRIBBLE_FGD = ''fgd''"
definition KEY_SCRIBBLE_BGD :: string where "KEY_SCRIBBLE_BGD = ''bgd''"

definition KEY_AXIAL :: string where "KEY_AXIAL = ''Axial''"
definition KEY_CORONAL :: string where "KEY_CORONAL = ''Coronal''"
definition KEY_SAGITTAL :: string where "KEY_SAGITTAL = ''Sagittal''"

definition DISTMAP_Z :: real where "DISTMAP_Z = 3"
definition DISTMAP_SIGMA :: real where "DISTMAP_SIGMA = 5 / 1000"

section \<open>Exceptions and the debugger\<close>

datatype exn =
    UnboundLocalError
  | TypeError
  | KeyError
  | AssertionError
  | MakeSEGDicomFailed
  | NoDataPresent
  | BdbQuit

text \<open>
  \<open>MODE_DEBUG\<close> is \<open>True\<close>, so the \<open>except\<close> clauses named below, and the 404 branch of
  \<open>makeSEGDicom\<close>, call \<open>pdb.set_trace()\<close>, which stops the request at the prompt of the
  interactive debugger. Two answers are modelled. The command \<open>c\<close> (continue) resumes the
  function. The command \<open>q\<close> (quit), which is also what an end of input on stdin amounts
  to, raises \<open>BdbQuit\<close>; where the breakpoint is the last statement of an \<open>except\<close> clause
  the exception leaves the function, whose \<open>return\<close> statement lies outside the \<open>try\<close>.
  Every call of \<open>pdb.set_trace()\<close> starts a debugger of its own, so every breakpoint has
  its own answer. The other debugger commands, with which an operator can change any
  variable, are not modelled.
\<close>

datatype breakpoint =
    At_getViewTypeAndSliceId
  | At_getGaussianDistanceMap
  | At_getDistanceMap
  | At_doInference
  | At_makeSEGDicom_404
  | At_makeSEGDicom

datatype pdb_command = Continue | Quit

type_synonym debugger = "breakpoint \<Rightarrow> pdb_command"

text \<open>The exception, if any, with which the breakpoint ends the function.\<close>

definition quit_raises :: "debugger \<Rightarrow> breakpoint \<Rightarrow> exn option" where
  "quit_raises dbg bp = (case dbg bp of Continue \<Rightarrow> None | Quit \<Rightarrow> Some BdbQuit)"

text \<open>
  The end of a function whose \<open>except\<close> clause has run into the breakpoint: the value
  of its \<open>return\<close> statement when the debugger resumes, \<open>BdbQuit\<close> when it is quit.
\<close>

definition set_trace :: "debugger \<Rightarrow> breakpoint \<Rightarrow> 'a \<Rightarrow> exn + 'a" where
  "set_trace dbg bp r = (case quit_raises dbg bp of None \<Rightarrow> Inr r | Some ex \<Rightarrow> Inl ex)"

section \<open>View detection: getViewTypeAndSliceId\<close>

text \<open>
  The request carries \<open>points3D\<close> as a list of integer triples (pydantic type
  \<open>List[Tuple[int, int, int]]\<close>); \<open>process\<close> turns it into a two-dimensional
  integer array whose column \<open>k\<close> is \<open>points3D[:,k]\<close>.
\<close>

type_synonym point3D = "int \<times> int \<times> int"

fun coord :: "point3D \<Rightarrow> nat \<Rightarrow> int" where
  "coord (x, y, z) k = (if k = 0 then x else if k = 1 then y else z)"

definition column :: "nat \<Rightarrow> point3D list \<Rightarrow> int list" where
  "column k points3D = map (\<lambda>p. coord p k) points3D"

text \<open>\<open>np.unique\<close>: the sorted distinct elements of an array.\<close>

definition np_unique :: "int list \<Rightarrow> int list" where
  "np_unique xs = sort (remdups xs)"

text \<open>
  The body of the loop \<open>for viewIdx in [0,1,2]\<close> with its \<open>break\<close>. The last branch of
  the inner \<open>if/elif\<close> chain leaves \<open>viewType\<close> at \<open>None\<close>; reading
  \<open>points3DAtIdx[0]\<close> of an empty column would raise an IndexError that the enclosing
  \<open>except\<close> swallows after \<open>viewType\<close> has been assigned.
\<close>

fun view_loop :: "point3D list \<Rightarrow> nat list \<Rightarrow> string option \<times> int option" where
  "view_loop points3D [] = (None, None)"
| "view_loop points3D (viewIdx # rest) =
     (let points3DAtIdx = column viewIdx points3D in
      if length (np_unique points3DAtIdx) = 1 then
        (let viewType = (if viewIdx = 0 then Some KEY_SAGITTAL
                         else if viewIdx = 1 then Some KEY_CORONAL
                         else if viewIdx = 2 then Some KEY_AXIAL
                         else None)
         in case points3DAtIdx of
              [] \<Rightarrow> (viewType, None)
            | v # _ \<Rightarrow> (viewType, Some v))
      else view_loop points3D rest)"

text \<open>
  For an empty point list \<open>np.array([])\<close> is one-dimensional and \<open>points3D[:,viewIdx]\<close>
  raises an IndexError in the first iteration; the \<open>except\<close> clause swallows it and runs
  into its breakpoint, after which the function returns \<open>(None, None)\<close>. A non-empty
  list raises nothing (a column with one distinct value is not empty).
\<close>

definition getViewTypeAndSliceId ::
    "debugger \<Rightarrow> point3D list \<Rightarrow> exn + (string option \<times> int option)" where
  "getViewTypeAndSliceId dbg points3D =
     (if points3D = [] then set_trace dbg At_getViewTypeAndSliceId (None, None)
      else Inr (view_loop points3D [0, 1, 2]))"

text \<open>All points carry the value \<open>c\<close> on axis \<open>k\<close>.\<close>

definition agree :: "point3D list \<Rightarrow> nat \<Rightarrow> int \<Rightarrow> bool" where
  "agree points3D k c \<longleftrightarrow> (\<forall>p \<in> set points3D. coord p k = c)"

section \<open>Array values\<close>

text \<open>
  Array elements are floating-point numbers. They are modelled as real numbers extended by
  the two infinities and NaN, so that a division by zero is a value of the model, as it is
  in numpy (which warns and continues): rounding and overflow of finite values are not
  modelled. The divisors of this program (a maximum of distances, and \<open>2 * sigma**2\<close>)
  are never negative zero, so a zero divisor is \<open>+0.0\<close>.
\<close>

datatype npfloat = Fin real | PInf | NInf | NaN

fun np_neg :: "npfloat \<Rightarrow> npfloat" where
  "np_neg (Fin a) = Fin (- a)"
| "np_neg PInf = NInf"
| "np_neg NInf = PInf"
| "np_neg NaN = NaN"

fun np_add :: "npfloat \<Rightarrow> npfloat \<Rightarrow> npfloat" where
  "np_add (Fin a) (Fin b) = Fin (a + b)"
| "np_add NaN y = NaN"
| "np_add x NaN = NaN"
| "np_add PInf NInf = NaN"
| "np_add NInf PInf = NaN"
| "np_add PInf y = PInf"
| "np_add x PInf = PInf"
| "np_add NInf y = NInf"
| "np_add x NInf = NInf"

definition np_sub :: "npfloat \<Rightarrow> npfloat \<Rightarrow> npfloat" where
  "np_sub x y = np_add x (np_neg y)"

fun np_square :: "npfloat \<Rightarrow> npfloat" where
  "np_square (Fin a) = Fin (a ^ 2)"
| "np_square PInf = PInf"
| "np_square NInf = PInf"
| "np_square NaN = NaN"

fun np_div :: "npfloat \<Rightarrow> npfloat \<Rightarrow> npfloat" where
  "np_div (Fin a) (Fin b) =
     (if b \<noteq> 0 then Fin (a / b)
      else if a = 0 then NaN
      else if 0 < a then PInf else NInf)"
| "np_div NaN y = NaN"
| "np_div x NaN = NaN"
| "np_div (Fin a) y = Fin 0"
| "np_div PInf (Fin b) = (if 0 \<le> b then PInf else NInf)"
| "np_div NInf (Fin b) = (if 0 \<le> b then NInf else PInf)"
| "np_div x y = NaN"

fun np_exp :: "npfloat \<Rightarrow> npfloat" where
  "np_exp (Fin a) = Fin (exp a)"
| "np_exp PInf = PInf"
| "np_exp NInf = Fin 0"
| "np_exp NaN = NaN"

text \<open>
  A three-dimensional array is its shape and its elements; the elements are a function of
  the index triple, of which only the indices inside the shape are elements of the array.
\<close>

type_synonym voxel = "nat \<times> nat \<times> nat"

record ndarray =
  shape :: "nat \<times> nat \<times> nat"
  data :: "voxel \<Rightarrow> npfloat"

text \<open>All indices of an array of the given shape, in storage order.\<close>

fun voxels :: "nat \<times> nat \<times> nat \<Rightarrow> voxel list" where
  "voxels (a, b, c) =
     concat (map (\<lambda>i. concat (map (\<lambda>j. map (\<lambda>k. (i, j, k)) [0..<c]) [0..<b])) [0..<a])"

text \<open>
  Indexing one axis of length \<open>n\<close> with an integer: a negative index counts from the end,
  and an index outside \<open>-n .. n-1\<close> raises an IndexError (\<open>None\<close>).
\<close>

definition np_index :: "nat \<Rightarrow> int \<Rightarrow> nat option" where
  "np_index n i =
     (if 0 \<le> i \<and> i < int n then Some (nat i)
      else if - int n \<le> i \<and> i < 0 then Some (nat (i + int n))
      else None)"

text \<open>
  The index triples of the assignment
  \<open>points3DInVolume[points3D[:,1], points3D[:,0], points3D[:,2]] = 1\<close>: the first array
  axis is indexed by the second coordinate of a point and the second axis by the first.
  One index out of range makes the whole assignment raise.
\<close>

fun index_points :: "nat \<times> nat \<times> nat \<Rightarrow> point3D list \<Rightarrow> voxel list option" where
  "index_points shp [] = Some []"
| "index_points (a, b, c) ((x, y, z) # ps) =
     (case (np_index a y, np_index b x, np_index c z) of
        (Some i, Some j, Some k) \<Rightarrow>
          (case index_points (a, b, c) ps of
             None \<Rightarrow> None
           | Some vs \<Rightarrow> Some ((i, j, k) # vs))
      | _ \<Rightarrow> None)"

section \<open>Distance maps: getGaussianDistanceMap and getDistanceMap\<close>

text \<open>
  The \<open>if/elif\<close> chain that chooses the voxel sampling; with no branch taken the name
  \<open>sampling\<close> is unbound and its use raises (\<open>None\<close>).
\<close>

definition sampling_of :: "string \<Rightarrow> real \<Rightarrow> (real \<times> real \<times> real) option" where
  "sampling_of viewType distZ =
     (if viewType = KEY_AXIAL then Some (1, 1, distZ)
      else if viewType = KEY_SAGITTAL then Some (distZ, 1, 1)
      else if viewType = KEY_CORONAL then Some (1, distZ, 1)
      else None)"

fun voxel_dist :: "real \<times> real \<times> real \<Rightarrow> voxel \<Rightarrow> voxel \<Rightarrow> real" where
  "voxel_dist (s0, s1, s2) (i, j, k) (i', j', k') =
     sqrt ((s0 * (real i - real i')) ^ 2 + (s1 * (real j - real j')) ^ 2
           + (s2 * (real k - real k')) ^ 2)"

text \<open>
  \<open>scipy.ndimage.distance_transform_edt(input, sampling)\<close>, after the library's
  documentation: every element gets the Euclidean distance, with the given spacing
  along each axis, to the nearest zero element of \<open>input\<close> (0 for a zero element).
  The documentation does not say what an input without zero element yields; that case is
  \<open>None\<close> here.
\<close>

definition distance_transform_edt ::
    "nat \<times> nat \<times> nat \<Rightarrow> (voxel \<Rightarrow> real) \<Rightarrow> real \<times> real \<times> real \<Rightarrow> (voxel \<Rightarrow> real) option" where
  "distance_transform_edt shp inp sampling =
     (let background = filter (\<lambda>b. inp b = 0) (voxels shp) in
      if background = [] then None
      else Some (\<lambda>v. Min (set (map (voxel_dist sampling v) background))))"

text \<open>
  The three ways \<open>getGaussianDistanceMap\<close> returns: the early \<open>return gaussianDistanceMap\<close>
  gives the single value \<open>None\<close>; the final \<open>return\<close> gives a triple, whose first
  component is still \<open>None\<close> when an exception was swallowed on the way. The \<open>except\<close>
  clause, which also catches a \<open>BdbQuit\<close> that comes out of \<open>getViewTypeAndSliceId\<close>, runs
  into its breakpoint before the final \<open>return\<close>.
\<close>

datatype gdm_result =
    BareNone
  | Triple "ndarray option" "string option" "int option"

definition getGaussianDistanceMap ::
    "debugger \<Rightarrow> ndarray \<Rightarrow> point3D list \<Rightarrow> real \<Rightarrow> real \<Rightarrow> exn + gdm_result" where
  "getGaussianDistanceMap dbg ctArray points3D distZ sigma =
     (case getViewTypeAndSliceId dbg points3D of
        Inl ex \<Rightarrow> set_trace dbg At_getGaussianDistanceMap (Triple None None None)
      | Inr (Some viewType, Some sliceId) \<Rightarrow>
          (case index_points (shape ctArray) points3D of
             None \<Rightarrow>
               set_trace dbg At_getGaussianDistanceMap
                 (Triple None (Some viewType) (Some sliceId))
           | Some idx \<Rightarrow>
              (let points3DInVolume = (\<lambda>v. if v \<in> set idx then 1 else 0 :: real) in
               case sampling_of viewType distZ of
                 None \<Rightarrow>
                   set_trace dbg At_getGaussianDistanceMap
                     (Triple None (Some viewType) (Some sliceId))
               | Some sampling \<Rightarrow>
                  (case distance_transform_edt (shape ctArray)
                          (\<lambda>v. 1 - points3DInVolume v) sampling of
                     None \<Rightarrow>
                       set_trace dbg At_getGaussianDistanceMap
                         (Triple None (Some viewType) (Some sliceId))
                   | Some edm \<Rightarrow>
                      (let maxVal = Max (set (map edm (voxels (shape ctArray))));
                           euclideanDistanceMap =
                             (\<lambda>v. np_sub (Fin 1) (np_div (Fin (edm v)) (Fin maxVal)));
                           gaussianDistanceMap =
                             (\<lambda>v. np_exp (np_div
                                     (np_neg (np_square (np_sub (Fin 1) (euclideanDistanceMap v))))
                                     (Fin (2 * sigma ^ 2))))
                       in Inr (Triple (Some \<lparr>shape = shape ctArray, data = gaussianDistanceMap\<rparr>)
                                 (Some viewType) (Some sliceId))))))
      | Inr _ \<Rightarrow> Inr BareNone)"

text \<open>
  The model input tensor of shape \<open>[1, 5, Z, Y, X]\<close>: the common shape of its five
  channels and the elements of each channel \<open>preparedDataTorch[0,c]\<close>.
\<close>

record tensor =
  tshape :: "nat \<times> nat \<times> nat"
  chan :: "nat \<Rightarrow> voxel \<Rightarrow> npfloat"

text \<open>
  \<open>getDistanceMap\<close> mutates the tensor it is given, so the model returns the tensor as
  the function leaves it together with the exception, if any, with which the function
  ends. Unpacking the bare \<open>None\<close> into three names raises a TypeError, and so does
  \<open>torch.tensor(None)\<close>; these, and a \<open>BdbQuit\<close> that comes out of
  \<open>getGaussianDistanceMap\<close>, are caught by the \<open>except\<close> clause before any channel is
  assigned, and the clause runs into its breakpoint. An unknown polarity only prints a
  message.
\<close>

definition getDistanceMap ::
    "debugger \<Rightarrow> tensor \<Rightarrow> string \<Rightarrow> point3D list \<Rightarrow> real \<Rightarrow> real
       \<Rightarrow> exn option \<times> tensor" where
  "getDistanceMap dbg preparedDataTorch scribbleType points3D distMapZ distMapSigma =
     (let ctArray = \<lparr>shape = tshape preparedDataTorch, data = chan preparedDataTorch 0\<rparr> in
      if scribbleType = KEY_SCRIBBLE_FGD then
        (case getGaussianDistanceMap dbg ctArray points3D distMapZ distMapSigma of
           Inr (Triple (Some fgdMap) _ _) \<Rightarrow>
             (None, preparedDataTorch\<lparr>chan := (chan preparedDataTorch)(3 := data fgdMap)\<rparr>)
         | _ \<Rightarrow> (quit_raises dbg At_getDistanceMap, preparedDataTorch))
      else if scribbleType = KEY_SCRIBBLE_BGD then
        (case getGaussianDistanceMap dbg ctArray points3D distMapZ distMapSigma of
           Inr (Triple (Some bgdMap) _ _) \<Rightarrow>
             (None, preparedDataTorch\<lparr>chan := (chan preparedDataTorch)(4 := data bgdMap)\<rparr>)
         | _ \<Rightarrow> (quit_raises dbg At_getDistanceMap, preparedDataTorch))
      else (None, preparedDataTorch))"

text \<open>
  The raw Euclidean distance map that \<open>getGaussianDistanceMap\<close> computes before it
  normalises (the value of \<open>scipy.ndimage.distance_transform_edt(...)\<close> there), and its
  maximum \<open>maxVal\<close>; \<open>None\<close> when the function does not get that far.
\<close>

definition scribble_edt ::
    "debugger \<Rightarrow> ndarray \<Rightarrow> point3D list \<Rightarrow> real \<Rightarrow> (voxel \<Rightarrow> real) option" where
  "scribble_edt dbg ctArray points3D distZ =
     (case getViewTypeAndSliceId dbg points3D of
        Inr (Some viewType, Some sliceId) \<Rightarrow>
          (case index_points (shape ctArray) points3D of
             None \<Rightarrow> None
           | Some idx \<Rightarrow>
              (case sampling_of viewType distZ of
                 None \<Rightarrow> None
               | Some sampling \<Rightarrow>
                   distance_transform_edt (shape ctArray)
                     (\<lambda>v. 1 - (if v \<in> set idx then 1 else 0)) sampling))
      | _ \<Rightarrow> None)"

definition scribble_maxVal ::
    "debugger \<Rightarrow> ndarray \<Rightarrow> point3D list \<Rightarrow> real \<Rightarrow> real option" where
  "scribble_maxVal dbg ctArray points3D distZ =
     (case scribble_edt dbg ctArray points3D distZ of
        None \<Rightarrow> None
      | Some edm \<Rightarrow> Some (Max (set (map edm (voxels (shape ctArray))))))"

text \<open>Reading a result: the element of the returned map at an index, if a map was returned.\<close>

definition gdm_value :: "exn + gdm_result \<Rightarrow> voxel \<Rightarrow> npfloat option" where
  "gdm_value r v =
     (case r of Inr (Triple (Some g) _ _) \<Rightarrow> Some (data g v) | _ \<Rightarrow> None)"

text \<open>\<open>torch.zeros\<close> / \<open>np.zeros\<close>: every element is 0.\<close>

definition zeros :: "voxel \<Rightarrow> npfloat" where
  "zeros = (\<lambda>v. Fin 0)"

section \<open>Inference: doInference\<close>

text \<open>Comparisons of an array element with a finite threshold; any comparison with NaN is false.\<close>

fun np_le :: "npfloat \<Rightarrow> real \<Rightarrow> bool" where
  "np_le (Fin a) t = (a \<le> t)"
| "np_le NInf t = True"
| "np_le PInf t = False"
| "np_le NaN t = False"

fun np_gt :: "npfloat \<Rightarrow> real \<Rightarrow> bool" where
  "np_gt (Fin a) t = (t < a)"
| "np_gt PInf t = True"
| "np_gt NInf t = False"
| "np_gt NaN t = False"

fun torch_sigmoid :: "npfloat \<Rightarrow> npfloat" where
  "torch_sigmoid (Fin a) = Fin (1 / (1 + exp (- a)))"
| "torch_sigmoid PInf = Fin 1"
| "torch_sigmoid NInf = Fin 0"
| "torch_sigmoid NaN = NaN"

text \<open>
  The two masked assignments \<open>x[x <= 0.5] = 0\<close> and \<open>x[x > 0.5] = 1\<close>, in this order.
\<close>

definition binarize :: "npfloat \<Rightarrow> npfloat" where
  "binarize x = (let y = (if np_le x (1 / 2) then Fin 0 else x)
                 in if np_gt y (1 / 2) then Fin 1 else y)"

text \<open>
  The network is a parameter: a function of the input tensor that returns the output
  volume \<open>model(x)[0,0]\<close>, or \<open>None\<close> when the call raises. The \<open>except\<close> clause of
  \<open>doInference\<close> swallows the exception and runs into its breakpoint, after which the
  function returns \<open>None\<close>.
\<close>

type_synonym model = "tensor \<Rightarrow> ndarray option"

definition doInference :: "debugger \<Rightarrow> model \<Rightarrow> tensor \<Rightarrow> exn + ndarray option" where
  "doInference dbg model preparedDataTorch =
     (case model preparedDataTorch of
        None \<Rightarrow> set_trace dbg At_doInference None
      | Some out \<Rightarrow>
          Inr (Some \<lparr>shape = shape out,
                      data = (\<lambda>v. binarize (torch_sigmoid (data out v)))\<rparr>))"

section \<open>Session data\<close>

record SearchObj =
  StudyInstanceUID :: string
  SeriesInstanceUID :: string
  SOPInstanceUID :: string
  wadoRsRoot :: string

record PreparedData =
  searchObjCT :: SearchObj
  searchObjPET :: SearchObj
  searchObjRTSGT :: SearchObj
  searchObjRTSPred :: SearchObj
  caseName :: string

text \<open>A retrieved CT instance; only its instance number matters to the code modelled here.\<close>

datatype dicom_instance = Instance (InstanceNumber: int)

text \<open>
  The value under \<open>KEY_TORCH_DATA\<close>: the empty dict a new session starts with, the empty
  list \<open>prepare\<close> resets it to, or the tensor that \<open>getCTArray\<close> allocates.
\<close>

datatype torch_data = EmptyDict | EmptyList | Tensor tensor

text \<open>
  The per-patient dict, one field per key. \<open>KEY_DATA\<close> is \<open>None\<close> for the empty dict of
  a new session and \<open>KEY_SEG_ORTHANC_ID\<close> is \<open>None\<close> until a SEG has been posted.
\<close>

record patientSession =
  KEY_DATA :: "PreparedData option"
  KEY_TORCH_DATA :: torch_data
  KEY_DCM_LIST :: "dicom_instance list"
  KEY_SCRIBBLE_COUNTER :: int
  KEY_SEG_SOP_INSTANCE_UID :: string
  KEY_SEG_SERIES_INSTANCE_UID :: string
  KEY_SEG_ORTHANC_ID :: "string option"
  KEY_DATETIME :: string

text \<open>
  \<open>SESSIONSGLOBAL[clientIdentifier]\<close> is one dict that holds the two string entries
  \<open>'userAgent'\<close> and \<open>'clientIdentifier'\<close> next to the per-patient dicts, all keyed by
  strings.
\<close>

datatype entry = StrEntry string | SessionEntry patientSession

datatype dcmclient = DICOMwebClient string

record server_state =
  SESSIONSGLOBAL :: "string \<rightharpoonup> (string \<rightharpoonup> entry)"
  DCMCLIENT :: "dcmclient option"

definition lookup_entry :: "server_state \<Rightarrow> string \<Rightarrow> string \<Rightarrow> entry option" where
  "lookup_entry st clientIdentifier patientName =
     (case SESSIONSGLOBAL st clientIdentifier of
        None \<Rightarrow> None
      | Some clientDict \<Rightarrow> clientDict patientName)"

text \<open>The assignment \<open>SESSIONSGLOBAL[clientIdentifier][patientName] = value\<close>.\<close>

definition store_entry :: "server_state \<Rightarrow> string \<Rightarrow> string \<Rightarrow> entry \<Rightarrow> server_state" where
  "store_entry st clientIdentifier patientName e =
     (case SESSIONSGLOBAL st clientIdentifier of
        None \<Rightarrow> st
      | Some clientDict \<Rightarrow>
          st\<lparr>SESSIONSGLOBAL := (SESSIONSGLOBAL st)(clientIdentifier \<mapsto> clientDict(patientName \<mapsto> e))\<rparr>)"

section \<open>The collaborators of a request\<close>

text \<open>
  What the archive, the libraries and the operating system answer during one request is a
  parameter of the request. \<open>None\<close> stands for a call that raises.
\<close>

datatype http_response = Response (status_code: nat) (json_ID: "string option")

text \<open>
  A series retrieved from the archive: the instances as retrieved, \<open>Rows\<close> and \<open>Columns\<close>
  of the first instance in instance-number order, whether the loop that copies the
  pixel arrays ran to its end, and the array it filled.
\<close>

type_synonym series = "dicom_instance list \<times> nat \<times> nat \<times> bool \<times> (voxel \<Rightarrow> npfloat)"

text \<open>
  Retrieving and reading a SEG instance: an \<open>HTTPError\<close> (handled next to the call), any
  other exception, or the array of the last available segment (\<open>None\<close> without segments).
\<close>

datatype seg_outcome = SegHTTPError | SegRaised | SegRead "ndarray option"

text \<open>
  \<open>pdb\<close> is what the debugger is answered at each breakpoint of the request.
  \<open>quit_inside_post_try\<close> says where a quit at the breakpoint of the 404 branch raises
  \<open>BdbQuit\<close>: at a line that still belongs to the inner \<open>try\<close> around the create request
  (interpreters that report the exit of the \<open>with\<close> block at its \<open>with\<close> line, or that
  stop inside \<open>pdb.set_trace()\<close> itself), or at the first statement after that \<open>try\<close>.
\<close>

record env =
  platform_system :: string
  userAgent :: string
  generate_uid_sop :: string
  generate_uid_series :: string
  datetime_now :: string
  new_DICOMwebClient :: "dcmclient option"
  retrieve_series_CT :: "series option"
  retrieve_series_PET :: "series option"
  retrieve_instance_GT :: seg_outcome
  retrieve_instance_Pred :: seg_outcome
  MODEL :: model
  seg_file_written :: bool
  requests_delete :: "http_response option"
  requests_post :: "http_response option"
  pdb :: debugger
  quit_inside_post_try :: bool

text \<open>
  \<open>getMemoryUsage\<close> binds \<open>gpuUsageInMB\<close> only on Darwin and reads it on every
  platform, so it raises an UnboundLocalError elsewhere.
\<close>

definition getMemoryUsage :: "env \<Rightarrow> exn + unit" where
  "getMemoryUsage e = (if platform_system e = ''Darwin'' then Inr () else Inl UnboundLocalError)"

section \<open>Publishing: makeSEGDicom\<close>

text \<open>
  \<open>makeSEGDicom\<close> returns the pair \<open>(makeDICOMStatus, patientSessionData)\<close> at its end
  and the single value \<open>makeDICOMStatus\<close> from the two inner \<open>except\<close> clauses.
\<close>

datatype seg_result = BareStatus bool | StatusAndSession bool patientSession

text \<open>
  Steps 0 to 3 (building the SEG object with SimpleITK and pydicom_seg and saving the
  file) raise when the mask is \<open>None\<close> or the instance list is empty, and otherwise
  succeed or raise as the libraries decide; the outer \<open>except\<close> swallows the exception and
  runs into its breakpoint. Step 4 ignores the status code of the delete response, and
  assigns the id of the create response only for status 200. Its two inner \<open>except\<close>
  clauses have no breakpoint. The 404 branch prints a message and runs into its
  breakpoint: resumed, the function goes on like for any other status; quit inside the
  inner \<open>try\<close>, \<open>BdbQuit\<close> is caught by its \<open>except\<close> clause, which returns the bare
  status; quit after it, \<open>BdbQuit\<close> is caught by the outer \<open>except\<close> clause.
\<close>

definition makeSEGDicom ::
    "env \<Rightarrow> dcmclient option \<Rightarrow> ndarray option \<Rightarrow> string \<Rightarrow> patientSession
       \<Rightarrow> exn + seg_result" where
  "makeSEGDicom e dcmClient maskArray clientIdentifier patientSessionData =
     (let makeDICOMStatus = False in
      if maskArray = None \<or> KEY_DCM_LIST patientSessionData = [] \<or> \<not> seg_file_written e
      then set_trace (pdb e) At_makeSEGDicom
             (StatusAndSession makeDICOMStatus patientSessionData)
      else
        (let instanceOrthanID = KEY_SEG_ORTHANC_ID patientSessionData in
         case dcmClient of
           None \<Rightarrow> Inr (StatusAndSession makeDICOMStatus patientSessionData)
         | Some client \<Rightarrow>
             if instanceOrthanID \<noteq> None \<and> requests_delete e = None
             then Inr (BareStatus makeDICOMStatus)
             else
               (case requests_post e of
                  None \<Rightarrow> Inr (BareStatus makeDICOMStatus)
                | Some sendResponse \<Rightarrow>
                    if status_code sendResponse = 200 then
                      (case json_ID sendResponse of
                         None \<Rightarrow> Inr (BareStatus makeDICOMStatus)
                       | Some newID \<Rightarrow>
                           Inr (StatusAndSession True
                                  (patientSessionData\<lparr>KEY_SEG_ORTHANC_ID := Some newID\<rparr>)))
                    else if status_code sendResponse = 404
                            \<and> pdb e At_makeSEGDicom_404 = Quit then
                      (if quit_inside_post_try e then Inr (BareStatus makeDICOMStatus)
                       else set_trace (pdb e) At_makeSEGDicom
                              (StatusAndSession makeDICOMStatus patientSessionData))
                    else
                      Inr (StatusAndSession True
                             (patientSessionData\<lparr>KEY_SEG_ORTHANC_ID := instanceOrthanID\<rparr>)))))"

section \<open>The endpoint /process\<close>

text \<open>\<open>torch.sum\<close> of one channel: the sum of its elements.\<close>

definition torch_sum :: "nat \<times> nat \<times> nat \<Rightarrow> (voxel \<Rightarrow> npfloat) \<Rightarrow> npfloat" where
  "torch_sum shp x = foldr np_add (map x (voxels shp)) (Fin 0)"

datatype response = ResponseData string string string string

text \<open>
  Steps 4.1 to 5 of \<open>process\<close>: inference, the counter, the publish and the response.
  \<open>patientData\<close> is the session dict itself, so the new counter is in the session table
  before \<open>makeSEGDicom\<close> runs. Unpacking a bare status into two names raises a TypeError.
  A \<open>BdbQuit\<close> that comes out of \<open>doInference\<close> or \<open>makeSEGDicom\<close> ends the request like
  any other exception.
\<close>

definition process_steps_4_5 ::
    "env \<Rightarrow> server_state \<Rightarrow> string \<Rightarrow> string \<Rightarrow> patientSession \<Rightarrow> tensor
       \<Rightarrow> (exn + response) \<times> server_state" where
  "process_steps_4_5 e st clientIdentifier patientName patientData preparedDataTorch =
     (let preparedData = KEY_DATA patientData in
      case doInference (pdb e) (MODEL e) preparedDataTorch of
        Inl ex \<Rightarrow> (Inl ex, st)
      | Inr segArrayRefinedNumpy \<Rightarrow>
         (let patientData1 =
                patientData\<lparr>KEY_SCRIBBLE_COUNTER := KEY_SCRIBBLE_COUNTER patientData + 1\<rparr>;
              st1 = store_entry st clientIdentifier patientName (SessionEntry patientData1)
          in case makeSEGDicom e (DCMCLIENT st1) segArrayRefinedNumpy clientIdentifier
                    patientData1 of
               Inl ex \<Rightarrow> (Inl ex, st1)
             | Inr (BareStatus b) \<Rightarrow> (Inl TypeError, st1)
             | Inr (StatusAndSession makeSEGDICOMStatus patientData2) \<Rightarrow>
                 (let st2 = store_entry st1 clientIdentifier patientName
                              (SessionEntry patientData2) in
                  if \<not> makeSEGDICOMStatus then (Inl MakeSEGDicomFailed, st2)
                  else
                    (case preparedData of
                       None \<Rightarrow> (Inl KeyError, st2)
                     | Some d \<Rightarrow>
                         (Inr (ResponseData
                                (StudyInstanceUID (searchObjCT d))
                                (KEY_SEG_SERIES_INSTANCE_UID patientData2)
                                (KEY_SEG_SOP_INSTANCE_UID patientData2)
                                (wadoRsRoot (searchObjCT d))), st2)))))"

text \<open>
  Steps 0 to 3 of \<open>process\<close>; \<open>dataAlreadyPresent\<close> is false when the session table
  has no entry under the client identifier and patient name. Every exception, the
  \<open>HTTPException\<close>s raised inside the \<open>try\<close> and a \<open>BdbQuit\<close> included, reaches the caller
  as an \<open>HTTPException\<close> with status 500; the model keeps the exception that caused it.
  Indexing the empty dict with \<open>[0,3]\<close> raises a KeyError, indexing the empty list or a
  string raises a TypeError. \<open>getDistanceMap\<close> works on a copy of the cached tensor.
\<close>

definition process ::
    "env \<Rightarrow> string \<Rightarrow> string \<Rightarrow> point3D list \<Rightarrow> string \<Rightarrow> server_state
       \<Rightarrow> (exn + response) \<times> server_state" where
  "process e identifier patientName points3D scribbleType st =
     (let clientIdentifier = identifier
      in case getMemoryUsage e of
           Inl err \<Rightarrow> (Inl err, st)
         | Inr u \<Rightarrow>
            (case lookup_entry st clientIdentifier patientName of
               None \<Rightarrow> (Inl NoDataPresent, st)
             | Some (StrEntry s) \<Rightarrow> (Inl TypeError, st)
             | Some (SessionEntry patientData) \<Rightarrow>
                 (case KEY_TORCH_DATA patientData of
                    EmptyDict \<Rightarrow> (Inl KeyError, st)
                  | EmptyList \<Rightarrow> (Inl TypeError, st)
                  | Tensor preparedDataTorch \<Rightarrow>
                      if \<not> (torch_sum (tshape preparedDataTorch) (chan preparedDataTorch 3) = Fin 0
                            \<and> torch_sum (tshape preparedDataTorch) (chan preparedDataTorch 4) = Fin 0)
                      then (Inl AssertionError, st)
                      else
                        (case getDistanceMap (pdb e) preparedDataTorch scribbleType points3D
                                DISTMAP_Z DISTMAP_SIGMA of
                           (Some ex, preparedDataTorch1) \<Rightarrow> (Inl ex, st)
                         | (None, preparedDataTorch1) \<Rightarrow>
                             process_steps_4_5 e st clientIdentifier patientName patientData
                               preparedDataTorch1))))"

section \<open>The endpoint /prepare\<close>

text \<open>The archive calls a request makes, in order.\<close>

datatype fetch_call =
  RetrieveSeriesCT | RetrieveSeriesPET | RetrieveInstanceGT | RetrieveInstancePred

text \<open>
  Broadcasting an array to the shape of a channel: every axis has the length of the
  channel's axis or length 1 (then its only element is repeated); otherwise the
  assignment raises.
\<close>

fun broadcast_to :: "nat \<times> nat \<times> nat \<Rightarrow> ndarray \<Rightarrow> (voxel \<Rightarrow> npfloat) option" where
  "broadcast_to (A, B, C) arr =
     (case shape arr of (a, b, c) \<Rightarrow>
        if (a = A \<or> a = 1) \<and> (b = B \<or> b = 1) \<and> (c = C \<or> c = 1)
        then Some (\<lambda>(i, j, k). data arr (if a = 1 then 0 else i,
                                          if b = 1 then 0 else j,
                                          if c = 1 then 0 else k))
        else None)"

text \<open>
  The assignment \<open>patientData[KEY_TORCH_DATA][0, ch, :, :, :] = torch.tensor(arr)\<close>; it
  raises (\<open>None\<close>) when the value under \<open>KEY_TORCH_DATA\<close> is not a tensor.
\<close>

definition assign_channel :: "torch_data \<Rightarrow> nat \<Rightarrow> ndarray \<Rightarrow> torch_data option" where
  "assign_channel td ch arr =
     (case td of
        Tensor t \<Rightarrow>
          (case broadcast_to (tshape t) arr of
             None \<Rightarrow> None
           | Some x \<Rightarrow> Some (Tensor (t\<lparr>chan := (chan t)(ch := x)\<rparr>)))
      | _ \<Rightarrow> None)"

definition getCTArray ::
    "env \<Rightarrow> patientSession \<Rightarrow> ndarray option \<times> patientSession \<times> fetch_call list" where
  "getCTArray e patientData =
     (case retrieve_series_CT e of
        None \<Rightarrow> (None, patientData, [RetrieveSeriesCT])
      | Some (retrieved, rows, columns, filled, pixels) \<Rightarrow>
          (let ctInstances = sort_key InstanceNumber retrieved in
           if length ctInstances = 0 then (None, patientData, [RetrieveSeriesCT])
           else
             (let ctArray = \<lparr>shape = (length ctInstances, rows, columns), data = pixels\<rparr> in
              if \<not> filled then (Some ctArray, patientData, [RetrieveSeriesCT])
              else
                (Some ctArray,
                 patientData\<lparr>KEY_TORCH_DATA :=
                               Tensor \<lparr>tshape = shape ctArray, chan = (\<lambda>ch. zeros)(0 := pixels)\<rparr>,
                             KEY_DCM_LIST := ctInstances\<rparr>,
                 [RetrieveSeriesCT]))))"

definition getPTArray ::
    "env \<Rightarrow> patientSession \<Rightarrow> ndarray option \<times> patientSession \<times> fetch_call list" where
  "getPTArray e patientData =
     (case retrieve_series_PET e of
        None \<Rightarrow> (None, patientData, [RetrieveSeriesPET])
      | Some (retrieved, rows, columns, filled, pixels) \<Rightarrow>
          (let ptInstances = sort_key InstanceNumber retrieved in
           if length ptInstances = 0 then (None, patientData, [RetrieveSeriesPET])
           else
             (let ptArray = \<lparr>shape = (length ptInstances, rows, columns), data = pixels\<rparr> in
              if \<not> filled then (Some ptArray, patientData, [RetrieveSeriesPET])
              else
                (case assign_channel (KEY_TORCH_DATA patientData) 1 ptArray of
                   None \<Rightarrow> (Some ptArray, patientData, [RetrieveSeriesPET])
                 | Some td \<Rightarrow>
                     (Some ptArray, patientData\<lparr>KEY_TORCH_DATA := td\<rparr>, [RetrieveSeriesPET])))))"

text \<open>
  Step 3 of \<open>getSEGs\<close>: the predicted mask, when there is one, goes into channel 2.
\<close>

definition getSEGs_step3 :: "ndarray option \<Rightarrow> patientSession \<Rightarrow> patientSession" where
  "getSEGs_step3 segArrayPred patientData =
     (case segArrayPred of
        None \<Rightarrow> patientData
      | Some pred \<Rightarrow>
          (case assign_channel (KEY_TORCH_DATA patientData) 2 pred of
             None \<Rightarrow> patientData
           | Some td \<Rightarrow> patientData\<lparr>KEY_TORCH_DATA := td\<rparr>))"

text \<open>
  Steps 1 and 2 of \<open>getSEGs\<close> each retrieve an instance unless the study UID of its search
  object is the empty string. An \<open>HTTPError\<close> leaves the array at \<open>None\<close> and the function
  goes on; any other exception ends the function through its outer \<open>except\<close>.
\<close>

definition getSEGs ::
    "env \<Rightarrow> patientSession
       \<Rightarrow> ndarray option \<times> ndarray option \<times> patientSession \<times> fetch_call list" where
  "getSEGs e patientData =
     (case KEY_DATA patientData of
        None \<Rightarrow> (None, None, patientData, [])
      | Some preparedData \<Rightarrow>
          (let fetchGT = (StudyInstanceUID (searchObjRTSGT preparedData) \<noteq> '''');
               fetchPred = (StudyInstanceUID (searchObjRTSPred preparedData) \<noteq> '''');
               logGT = (if fetchGT then [RetrieveInstanceGT] else []);
               logPred = (if fetchPred then [RetrieveInstancePred] else [])
           in if fetchGT \<and> retrieve_instance_GT e = SegRaised
              then (None, None, patientData, logGT)
              else
                (let segArrayGT =
                       (if fetchGT then
                          (case retrieve_instance_GT e of SegRead a \<Rightarrow> a | _ \<Rightarrow> None)
                        else None)
                 in if fetchPred \<and> retrieve_instance_Pred e = SegRaised
                    then (segArrayGT, None, patientData, logGT @ logPred)
                    else
                      (let segArrayPred =
                             (if fetchPred then
                                (case retrieve_instance_Pred e of SegRead a \<Rightarrow> a | _ \<Rightarrow> None)
                              else None)
                       in (segArrayGT, segArrayPred, getSEGs_step3 segArrayPred patientData,
                           logGT @ logPred)))))"

text \<open>The body of \<open>if DCMCLIENT != None\<close> in \<open>prepare\<close>: the three fetches, nested.\<close>

definition fetch_case :: "env \<Rightarrow> patientSession \<Rightarrow> patientSession \<times> fetch_call list" where
  "fetch_case e patientData =
     (case getCTArray e patientData of
        (None, patientData1, log1) \<Rightarrow> (patientData1, log1)
      | (Some ctArray, patientData1, log1) \<Rightarrow>
          (case getPTArray e patientData1 of
             (None, patientData2, log2) \<Rightarrow> (patientData2, log1 @ log2)
           | (Some ptArray, patientData2, log2) \<Rightarrow>
               (case getSEGs e patientData2 of
                  (segArrayGT, segArrayPred, patientData3, log3) \<Rightarrow>
                    (patientData3, log1 @ log2 @ log3))))"

text \<open>The two status messages of \<open>prepare\<close>.\<close>

datatype prepare_status = DataAlreadyLoaded | FreshDataLoaded

definition prepare_return :: "env \<Rightarrow> bool \<Rightarrow> exn + prepare_status" where
  "prepare_return e dataAlreadyPresent =
     (case getMemoryUsage e of
        Inl err \<Rightarrow> Inl err
      | Inr u \<Rightarrow> Inr (if dataAlreadyPresent then DataAlreadyLoaded else FreshDataLoaded))"

definition new_client_dict :: "env \<Rightarrow> string \<Rightarrow> (string \<rightharpoonup> entry)" where
  "new_client_dict e clientIdentifier =
     [''userAgent'' \<mapsto> StrEntry (userAgent e), ''clientIdentifier'' \<mapsto> StrEntry clientIdentifier]"

definition new_patient_dict :: "env \<Rightarrow> patientSession" where
  "new_patient_dict e =
     \<lparr>KEY_DATA = None, KEY_TORCH_DATA = EmptyDict, KEY_DCM_LIST = [],
      KEY_SCRIBBLE_COUNTER = 0,
      KEY_SEG_SOP_INSTANCE_UID = generate_uid_sop e,
      KEY_SEG_SERIES_INSTANCE_UID = generate_uid_series e,
      KEY_SEG_ORTHANC_ID = None,
      KEY_DATETIME = datetime_now e\<rparr>"

text \<open>
  \<open>prepare\<close> returns its status, the new server state and the archive calls it made.
  A patient name that is one of the two string keys of the client dict finds a string
  where the patient dict is expected, and indexing it raises a TypeError.
\<close>

definition prepare ::
    "env \<Rightarrow> string \<Rightarrow> PreparedData \<Rightarrow> server_state
       \<Rightarrow> (exn + prepare_status) \<times> server_state \<times> fetch_call list" where
  "prepare e identifier preparePayloadData st =
     (let clientIdentifier = identifier;
          patientName = caseName preparePayloadData;
          st1 = (if SESSIONSGLOBAL st clientIdentifier = None
                 then st\<lparr>SESSIONSGLOBAL :=
                          (SESSIONSGLOBAL st)(clientIdentifier \<mapsto> new_client_dict e clientIdentifier)\<rparr>
                 else st);
          st2 = (if lookup_entry st1 clientIdentifier patientName = None
                 then store_entry st1 clientIdentifier patientName (SessionEntry (new_patient_dict e))
                 else st1)
      in case lookup_entry st2 clientIdentifier patientName of
           None \<Rightarrow> (Inl KeyError, st2, [])
         | Some (StrEntry s) \<Rightarrow> (Inl TypeError, st2, [])
         | Some (SessionEntry patientData) \<Rightarrow>
             if KEY_DATA patientData \<noteq> Some preparePayloadData then
               (let patientData1 = patientData\<lparr>KEY_DATA := Some preparePayloadData,
                                               KEY_TORCH_DATA := EmptyList\<rparr>;
                    st3 = store_entry st2 clientIdentifier patientName (SessionEntry patientData1);
                    st4 = (if DCMCLIENT st3 = None
                           then st3\<lparr>DCMCLIENT := new_DICOMwebClient e\<rparr> else st3)
                in if DCMCLIENT st4 \<noteq> None then
                     (case fetch_case e patientData1 of
                        (patientData2, calls) \<Rightarrow>
                          (prepare_return e False,
                           store_entry st4 clientIdentifier patientName (SessionEntry patientData2),
                           calls))
                   else (prepare_return e False, st4, []))
             else (prepare_return e True, st2, []))"

section \<open>Reachable server states\<close>

text \<open>
  The server starts with an empty session table and no archive client; every request, with
  whatever its collaborators answer, leads from one state to the next.
\<close>

definition initial_state :: server_state where
  "initial_state = \<lparr>SESSIONSGLOBAL = Map.empty, DCMCLIENT = None\<rparr>"

inductive reachable :: "server_state \<Rightarrow> bool" where
  reachable_initial: "reachable initial_state"
| reachable_prepare:
    "reachable st \<Longrightarrow> prepare e identifier preparePayloadData st = (r, st', calls)
       \<Longrightarrow> reachable st'"
| reachable_process:
    "reachable st \<Longrightarrow> process e identifier patientName points3D scribbleType st = (r, st')
       \<Longrightarrow> reachable st'"

text \<open>The prior channels 3 and 4 of every cached tensor are zero everywhere.\<close>

definition priors_zero_td :: "torch_data \<Rightarrow> bool" where
  "priors_zero_td td \<longleftrightarrow> (\<forall>t. td = Tensor t \<longrightarrow> chan t 3 = zeros \<and> chan t 4 = zeros)"

definition priors_zero :: "server_state \<Rightarrow> bool" where
  "priors_zero st \<longleftrightarrow>
     (\<forall>clientIdentifier patientName s.
        lookup_entry st clientIdentifier patientName = Some (SessionEntry s)
        \<longrightarrow> priors_zero_td (KEY_TORCH_DATA s))"

section \<open>Reading the session table\<close>

definition session_of :: "server_state \<Rightarrow> string \<Rightarrow> string \<Rightarrow> patientSession option" where
  "session_of st clientIdentifier patientName =
     (case lookup_entry st clientIdentifier patientName of
        Some (SessionEntry s) \<Rightarrow> Some s
      | _ \<Rightarrow> None)"

definition counter_of :: "server_state \<Rightarrow> string \<Rightarrow> string \<Rightarrow> int option" where
  "counter_of st clientIdentifier patientName =
     map_option KEY_SCRIBBLE_COUNTER (session_of st clientIdentifier patientName)"

definition orthanc_id_of :: "server_state \<Rightarrow> string \<Rightarrow> string \<Rightarrow> string option option" where
  "orthanc_id_of st clientIdentifier patientName =
     map_option KEY_SEG_ORTHANC_ID (session_of st clientIdentifier patientName)"

text \<open>
  A refine turn gets as far as step 4.2 (the counter update) when \<open>getMemoryUsage\<close>
  returns, the session holds a tensor, the assertion on its prior channels passes, and
  neither \<open>getDistanceMap\<close> nor \<open>doInference\<close> ends with \<open>BdbQuit\<close>.
\<close>

definition reaches_step_4 :: "env \<Rightarrow> patientSession \<Rightarrow> point3D list \<Rightarrow> string \<Rightarrow> bool" where
  "reaches_step_4 e s points3D scribbleType \<longleftrightarrow>
     platform_system e = ''Darwin'' \<and>
     (case KEY_TORCH_DATA s of
        Tensor t \<Rightarrow>
          torch_sum (tshape t) (chan t 3) = Fin 0 \<and> torch_sum (tshape t) (chan t 4) = Fin 0
          \<and> (case getDistanceMap (pdb e) t scribbleType points3D DISTMAP_Z DISTMAP_SIGMA of
                (Some ex, t1) \<Rightarrow> False
              | (None, t1) \<Rightarrow>
                  (case doInference (pdb e) (MODEL e) t1 of Inl ex \<Rightarrow> False | Inr seg \<Rightarrow> True))
      | _ \<Rightarrow> False)"

text \<open>
  The values a prior map can hold: \<open>getGaussianDistanceMap\<close> yields an exponential, which
  is a non-negative number, or NaN.
\<close>

fun prior_value :: "npfloat \<Rightarrow> bool" where
  "prior_value (Fin a) = (0 \<le> a)"
| "prior_value NaN = True"
| "prior_value PInf = False"
| "prior_value NInf = False"

section \<open>Example data\<close>

text \<open>Two small volumes: a single voxel, and two voxels along the last axis.\<close>

definition volume_1x1x1 :: ndarray where
  "volume_1x1x1 = \<lparr>shape = (1, 1, 1), data = zeros\<rparr>"

definition volume_1x1x2 :: ndarray where
  "volume_1x1x2 = \<lparr>shape = (1, 1, 2), data = zeros\<rparr>"

text \<open>
  A request for one case of one client, collaborators under which every step succeeds,
  and the server state after this \<open>prepare\<close> request: the CT and PET series have two
  instances of two rows and two columns, and channels 0 to 2 are zero like the priors.
  The debugger, where a request runs into it, is resumed.
\<close>

definition debugger_resumes :: debugger where
  "debugger_resumes bp = Continue"

definition debugger_quits :: debugger where
  "debugger_quits bp = Quit"

definition example_search_obj :: "string \<Rightarrow> SearchObj" where
  "example_search_obj series =
     \<lparr>StudyInstanceUID = ''1.2.840.1'', SeriesInstanceUID = series,
      SOPInstanceUID = ''1.2.840.3'', wadoRsRoot = ''http://localhost:8042/dicom-web''\<rparr>"

definition example_data :: PreparedData where
  "example_data =
     \<lparr>searchObjCT = example_search_obj ''ct'', searchObjPET = example_search_obj ''pet'',
      searchObjRTSGT = example_search_obj ''gt'', searchObjRTSPred = example_search_obj ''pred'',
      caseName = ''case-1''\<rparr>"

definition example_client :: dcmclient where
  "example_client = DICOMwebClient ''http://localhost:8042/dicom-web''"

definition example_model :: model where
  "example_model t = Some \<lparr>shape = tshape t, data = chan t 2\<rparr>"

definition example_env :: env where
  "example_env =
     \<lparr>platform_system = ''Darwin'', userAgent = ''browser'',
      generate_uid_sop = ''1.2.826.1'', generate_uid_series = ''1.2.826.2'',
      datetime_now = ''2024-01-01 00:00:00'',
      new_DICOMwebClient = Some example_client,
      retrieve_series_CT = Some ([Instance 1, Instance 2], 2, 2, True, zeros),
      retrieve_series_PET = Some ([Instance 1, Instance 2], 2, 2, True, zeros),
      retrieve_instance_GT = SegHTTPError,
      retrieve_instance_Pred = SegRead None,
      MODEL = example_model,
      seg_file_written = True,
      requests_delete = Some (Response 200 None),
      requests_post = Some (Response 200 (Some ''orthanc-1'')),
      pdb = debugger_resumes,
      quit_inside_post_try = True\<rparr>"

definition example_tensor :: tensor where
  "example_tensor = \<lparr>tshape = (2, 2, 2), chan = (\<lambda>ch. zeros)\<rparr>"

definition example_session :: patientSession where
  "example_session =
     \<lparr>KEY_DATA = Some example_data, KEY_TORCH_DATA = Tensor example_tensor,
      KEY_DCM_LIST = [Instance 1, Instance 2], KEY_SCRIBBLE_COUNTER = 0,
      KEY_SEG_SOP_INSTANCE_UID = ''1.2.826.1'', KEY_SEG_SERIES_INSTANCE_UID = ''1.2.826.2'',
      KEY_SEG_ORTHANC_ID = None, KEY_DATETIME = ''2024-01-01 00:00:00''\<rparr>"

definition example_state :: server_state where
  "example_state =
     \<lparr>SESSIONSGLOBAL =
        [''client-1'' \<mapsto> (new_client_dict example_env ''client-1'')
                                (''case-1'' \<mapsto> SessionEntry example_session)],
      DCMCLIENT = Some example_client\<rparr>"

text \<open>
  The same collaborators, except that the debugger is quit at every breakpoint; that
  the archive answers the create with status 500; that it answers the delete with status
  500 and the create with a new id; that the create raises.
\<close>

definition env_debugger_quits :: env where
  "env_debugger_quits = example_env\<lparr>pdb := debugger_quits\<rparr>"

definition env_create_rejected :: env where
  "env_create_rejected = example_env\<lparr>requests_post := Some (Response 500 None)\<rparr>"

definition env_delete_rejected :: env where
  "env_delete_rejected =
     example_env\<lparr>requests_delete := Some (Response 500 None),
                   requests_post := Some (Response 200 (Some ''orthanc-2''))\<rparr>"

definition env_create_raises :: env where
  "env_create_raises = example_env\<lparr>requests_post := None\<rparr>"

text \<open>The example session after one published refine turn, and the state that holds it.\<close>

definition published_session :: patientSession where
  "published_session =
     example_session\<lparr>KEY_SCRIBBLE_COUNTER := 1, KEY_SEG_ORTHANC_ID := Some ''orthanc-1''\<rparr>"

definition published_state :: server_state where
  "published_state =
     store_entry example_state ''client-1'' ''case-1'' (SessionEntry published_session)"

text \<open>A tensor with a stale foreground prior, in a session that is otherwise the example.\<close>

definition stale_tensor :: tensor where
  "stale_tensor = \<lparr>tshape = (2, 2, 2), chan = (\<lambda>ch. zeros)(3 := (\<lambda>v. Fin 1))\<rparr>"

definition stale_state :: server_state where
  "stale_state =
     store_entry example_state ''client-1'' ''case-1''
       (SessionEntry (example_session\<lparr>KEY_TORCH_DATA := Tensor stale_tensor\<rparr>))"

section \<open>Properties of view detection\<close>

lemma length_np_unique: "length (np_unique xs) = card (set xs)"
  by (simp add: np_unique_def length_remdups_card_conv)

lemma np_unique_single_iff:
  "length (np_unique (column k pts)) = 1 \<longleftrightarrow> pts \<noteq> [] \<and> (\<exists>c. agree pts k c)"
proof
  assume h: "length (np_unique (column k pts)) = 1"
  then have "card (set (column k pts)) = 1" by (simp add: length_np_unique)
  then obtain c where c: "set (column k pts) = {c}" by (auto simp: card_1_singleton_iff)
  then have "pts \<noteq> []" by (auto simp: column_def)
  moreover have "agree pts k c" using c by (auto simp: agree_def column_def)
  ultimately show "pts \<noteq> [] \<and> (\<exists>c. agree pts k c)" by blast
next
  assume h: "pts \<noteq> [] \<and> (\<exists>c. agree pts k c)"
  then obtain c where c: "agree pts k c" by blast
  from h obtain p ps where pts: "pts = p # ps" by (cases pts) auto
  have "set (column k pts) = {c}"
    using c by (auto simp: agree_def column_def pts)
  then show "length (np_unique (column k pts)) = 1" by (simp add: length_np_unique)
qed

lemma view_loop_step:
  assumes "pts \<noteq> []"
  shows "view_loop pts (k # rest) =
     (if \<exists>c. agree pts k c
      then ((if k = 0 then Some KEY_SAGITTAL else if k = 1 then Some KEY_CORONAL
             else if k = 2 then Some KEY_AXIAL else None), Some (coord (hd pts) k))
      else view_loop pts rest)"
proof -
  from assms obtain p ps where pts: "pts = p # ps" by (cases pts) auto
  have col: "column k pts = coord (hd pts) k # column k ps" by (simp add: pts column_def)
  have iff: "length (np_unique (column k pts)) = 1 \<longleftrightarrow> (\<exists>c. agree pts k c)"
    using assms np_unique_single_iff [of k pts] by simp
  show ?thesis
  proof (cases "\<exists>c. agree pts k c")
    case True
    then have "length (np_unique (column k pts)) = 1" using iff by blast
    then show ?thesis using True by (simp add: Let_def col)
  next
    case False
    then have "length (np_unique (column k pts)) \<noteq> 1" using iff by blast
    then show ?thesis using False by (simp add: Let_def)
  qed
qed

lemma agree_hd: "pts \<noteq> [] \<Longrightarrow> agree pts k c \<Longrightarrow> coord (hd pts) k = c"
  by (cases pts) (auto simp: agree_def)

text \<open>
  Claim C1. For a non-empty sequence of points, \<open>getViewTypeAndSliceId\<close> returns the
  first axis in the order 0, 1, 2 on which all points share one coordinate value
  (axis 0 named Sagittal, axis 1 Coronal, axis 2 Axial) together with that shared value,
  and returns neither view nor slice when no axis carries a single shared value.
\<close>

theorem getViewTypeAndSliceId_first_shared_axis:
  assumes "points3D \<noteq> []"
  shows "(\<forall>c. agree points3D 0 c \<longrightarrow>
            getViewTypeAndSliceId dbg points3D = Inr (Some KEY_SAGITTAL, Some c))
       \<and> (\<forall>c. (\<nexists>d. agree points3D 0 d) \<and> agree points3D 1 c \<longrightarrow>
            getViewTypeAndSliceId dbg points3D = Inr (Some KEY_CORONAL, Some c))
       \<and> (\<forall>c. (\<nexists>d. agree points3D 0 d) \<and> (\<nexists>d. agree points3D 1 d) \<and> agree points3D 2 c \<longrightarrow>
            getViewTypeAndSliceId dbg points3D = Inr (Some KEY_AXIAL, Some c))
       \<and> ((\<nexists>d. agree points3D 0 d) \<and> (\<nexists>d. agree points3D 1 d) \<and> (\<nexists>d. agree points3D 2 d) \<longrightarrow>
            getViewTypeAndSliceId dbg points3D = Inr (None, None))"
  using assms
  by (auto simp: getViewTypeAndSliceId_def view_loop_step agree_hd
           simp del: view_loop.simps(2))

theorem getViewTypeAndSliceId_first_shared_axis_witness:
  "[(30, 30, 4), (31, 30, 4), (30, 31, 4)] \<noteq> ([] :: point3D list) \<and>
   (\<nexists>d. agree [(30, 30, 4), (31, 30, 4), (30, 31, 4)] 0 d) \<and>
   (\<nexists>d. agree [(30, 30, 4), (31, 30, 4), (30, 31, 4)] 1 d) \<and>
   agree [(30, 30, 4), (31, 30, 4), (30, 31, 4)] 2 4 \<and>
   getViewTypeAndSliceId debugger_quits [(30, 30, 4), (31, 30, 4), (30, 31, 4)]
     = Inr (Some KEY_AXIAL, Some 4)"
proof -
  let ?pts = "[(30, 30, 4), (31, 30, 4), (30, 31, 4)] :: point3D list"
  have a0: "\<nexists>d. agree ?pts 0 d" by (auto simp: agree_def)
  have a1: "\<nexists>d. agree ?pts 1 d" by (auto simp: agree_def)
  have a2: "agree ?pts 2 4" by (simp add: agree_def)
  have ne: "?pts \<noteq> []" by simp
  show ?thesis
    using getViewTypeAndSliceId_first_shared_axis [OF ne, of debugger_quits] a0 a1 a2 by blast
qed

section \<open>Properties of the Gaussian distance map\<close>

lemma voxels_mem: "(i, j, k) \<in> set (voxels (a, b, c)) \<longleftrightarrow> i < a \<and> j < b \<and> k < c"
  by (force simp: image_iff)

lemma np_index_lt: "np_index n i = Some m \<Longrightarrow> m < n"
  by (auto simp: np_index_def split: if_splits)

lemma index_points_Cons:
  "index_points (a, b, c) ((x, y, z) # ps) = Some idx \<longleftrightarrow>
     (\<exists>i j k vs. np_index a y = Some i \<and> np_index b x = Some j \<and> np_index c z = Some k
        \<and> index_points (a, b, c) ps = Some vs \<and> idx = (i, j, k) # vs)"
  by (auto split: option.splits)

lemma index_points_subset:
  "index_points (a, b, c) pts = Some idx \<Longrightarrow> set idx \<subseteq> set (voxels (a, b, c))"
proof (induction pts arbitrary: idx)
  case Nil
  then show ?case by simp
next
  case (Cons p ps)
  obtain x y z where p: "p = (x, y, z)" by (cases p) auto
  from Cons.prems obtain i j k vs where
    h: "np_index a y = Some i" "np_index b x = Some j" "np_index c z = Some k"
       "index_points (a, b, c) ps = Some vs" "idx = (i, j, k) # vs"
    unfolding p index_points_Cons by blast
  have "(i, j, k) \<in> set (voxels (a, b, c))"
    using h(1-3) by (simp only: voxels_mem np_index_lt)
  moreover have "set vs \<subseteq> set (voxels (a, b, c))" using Cons.IH h(4) by blast
  ultimately show ?case using h(5) by simp
qed

lemma index_points_nonempty:
  "index_points shp pts = Some idx \<Longrightarrow> pts \<noteq> [] \<Longrightarrow> idx \<noteq> []"
  by (cases shp; cases pts) (auto split: option.splits)

lemma getViewTypeAndSliceId_Some:
  assumes "getViewTypeAndSliceId dbg pts = Inr (Some vt, sl)"
  shows "pts \<noteq> [] \<and> vt \<in> {KEY_SAGITTAL, KEY_CORONAL, KEY_AXIAL}"
  using assms
  by (auto simp: getViewTypeAndSliceId_def set_trace_def quit_raises_def Let_def
           split: if_splits list.splits pdb_command.splits)


lemma voxel_dist_nonneg: "0 \<le> voxel_dist s v b"
  by (cases s; cases v; cases b) simp



lemma edt_of_scribble:
  assumes "set idx \<subseteq> set (voxels shp)" and "idx \<noteq> []"
  shows "distance_transform_edt shp (\<lambda>v. 1 - (if v \<in> set idx then 1 else 0)) s =
           Some (\<lambda>v. Min (voxel_dist s v ` set idx))"
proof -
  let ?bg = "filter (\<lambda>b. 1 - (if b \<in> set idx then 1 else 0) = (0::real)) (voxels shp)"
  have set_bg: "set ?bg = set idx" using assms(1) by auto
  then have "?bg \<noteq> []" using assms(2) by (metis set_empty)
  then show ?thesis
    unfolding distance_transform_edt_def Let_def
    by (simp only: if_False set_map set_bg)
qed

lemma min_dist_nonneg:
  assumes "idx \<noteq> []"
  shows "0 \<le> Min (voxel_dist s v ` set idx)"
  using assms by (simp add: voxel_dist_nonneg)



lemma gaussian_nan:
  "np_exp (np_div (np_neg (np_square (np_sub (Fin 1)
            (np_sub (Fin 1) (np_div (Fin 0) (Fin 0)))))) (Fin c)) = NaN"
  by (simp add: np_sub_def)


lemma scribble_edt_SomeD:
  assumes "scribble_edt dbg ctArray pts distZ = Some edm"
  obtains vt sl idx s where
    "getViewTypeAndSliceId dbg pts = Inr (Some vt, Some sl)"
    "index_points (shape ctArray) pts = Some idx"
    "sampling_of vt distZ = Some s"
    "edm = (\<lambda>v. Min (voxel_dist s v ` set idx))"
    "idx \<noteq> []" "set idx \<subseteq> set (voxels (shape ctArray))"
proof -
  from assms obtain vt sl idx s where
    h: "getViewTypeAndSliceId dbg pts = Inr (Some vt, Some sl)"
       "index_points (shape ctArray) pts = Some idx"
       "sampling_of vt distZ = Some s"
       "distance_transform_edt (shape ctArray)
           (\<lambda>v. 1 - (if v \<in> set idx then 1 else 0)) s = Some edm"
    by (auto simp: scribble_edt_def split: sum.splits prod.splits option.splits)
  have ne: "pts \<noteq> []" using h(1) getViewTypeAndSliceId_Some by blast
  have i1: "idx \<noteq> []" using index_points_nonempty [OF h(2) ne] .
  obtain a b c where shp: "shape ctArray = (a, b, c)" by (cases "shape ctArray") auto
  have i2: "set idx \<subseteq> set (voxels (shape ctArray))"
    using index_points_subset h(2) unfolding shp by blast
  have "edm = (\<lambda>v. Min (voxel_dist s v ` set idx))"
    using edt_of_scribble [OF i2 i1, of s] h(4) by simp
  then show ?thesis using that h(1-3) i1 i2 by blast
qed

lemma getGaussianDistanceMap_computed:
  assumes "scribble_edt dbg ctArray pts distZ = Some edm"
  shows "\<exists>vt sl. getGaussianDistanceMap dbg ctArray pts distZ sigma =
     Inr (Triple (Some \<lparr>shape = shape ctArray,
                   data = (\<lambda>v. np_exp (np_div (np_neg (np_square (np_sub (Fin 1)
                       (np_sub (Fin 1) (np_div (Fin (edm v))
                           (Fin (Max (set (map edm (voxels (shape ctArray)))))))))))
                       (Fin (2 * sigma ^ 2))))\<rparr>)
            (Some vt) (Some sl))"
  using assms
  by (auto simp: getGaussianDistanceMap_def scribble_edt_def Let_def
           split: sum.splits prod.splits option.splits)

lemma scribble_maxVal_SomeD:
  assumes "scribble_maxVal dbg ctArray pts distZ = Some m"
  obtains edm where "scribble_edt dbg ctArray pts distZ = Some edm"
    "m = Max (set (map edm (voxels (shape ctArray))))"
  using assms by (auto simp: scribble_maxVal_def split: option.splits)

lemma edm_le_max:
  assumes "v \<in> set (voxels shp)"
  shows "edm v \<le> Max (set (map edm (voxels shp)))"
  using assms by (intro Max_ge) auto

lemma view_of_origin:
  "getViewTypeAndSliceId dbg [(0, 0, 0)] = Inr (Some KEY_SAGITTAL, Some 0)"
  by (simp add: getViewTypeAndSliceId_def column_def np_unique_def)


lemma maxVal_volume_1x1x1:
  "scribble_maxVal dbg volume_1x1x1 [(0, 0, 0)] DISTMAP_Z = Some 0"
  by (simp add: scribble_maxVal_def scribble_edt_def view_of_origin volume_1x1x1_def
        np_index_def sampling_of_def KEY_SAGITTAL_def KEY_AXIAL_def
        distance_transform_edt_def DISTMAP_Z_def)



text \<open>
  Claim C9, as the code has it. When the maximum distance \<open>maxVal\<close> is 0,
  \<open>getGaussianDistanceMap\<close> does not fail: it performs the division by \<open>maxVal\<close>, which
  is \<open>0/0\<close> at every voxel of the volume, and returns a map that is NaN at every voxel,
  together with the detected view and slice.
\<close>

theorem getGaussianDistanceMap_zero_max_nan:
  assumes "scribble_maxVal dbg ctArray points3D distZ = Some 0"
  shows "\<exists>g vt sl.
           getGaussianDistanceMap dbg ctArray points3D distZ sigma
             = Inr (Triple (Some g) (Some vt) (Some sl))
         \<and> shape g = shape ctArray
         \<and> (\<forall>v \<in> set (voxels (shape ctArray)). data g v = NaN)"
proof -
  from assms obtain edm where
    edm: "scribble_edt dbg ctArray points3D distZ = Some edm"
    and m: "0 = Max (set (map edm (voxels (shape ctArray))))"
    by (rule scribble_maxVal_SomeD)
  from edm obtain vt sl idx s where
    h: "edm = (\<lambda>v. Min (voxel_dist s v ` set idx))" "idx \<noteq> []"
    by (rule scribble_edt_SomeD)
  from getGaussianDistanceMap_computed [OF edm, of sigma] obtain vt' sl' where
    g: "getGaussianDistanceMap dbg ctArray points3D distZ sigma =
          Inr (Triple (Some \<lparr>shape = shape ctArray,
                   data = (\<lambda>v. np_exp (np_div (np_neg (np_square (np_sub (Fin 1)
                       (np_sub (Fin 1) (np_div (Fin (edm v)) (Fin 0))))))
                       (Fin (2 * sigma ^ 2))))\<rparr>) (Some vt') (Some sl'))"
    unfolding m [symmetric] by blast
  have "edm v = 0" if "v \<in> set (voxels (shape ctArray))" for v
  proof -
    have "edm v \<le> 0" using edm_le_max [OF that, of edm] m by simp
    moreover have "0 \<le> edm v" using min_dist_nonneg [OF h(2), of s v] by (simp add: h(1))
    ultimately show ?thesis by linarith
  qed
  then show ?thesis using g by (simp add: np_sub_def)
qed


theorem getGaussianDistanceMap_zero_max_nan_witness:
  "scribble_maxVal debugger_resumes volume_1x1x1 [(0, 0, 0)] DISTMAP_Z = Some 0
   \<and> (\<exists>g vt sl.
           getGaussianDistanceMap debugger_resumes volume_1x1x1 [(0, 0, 0)]
               DISTMAP_Z DISTMAP_SIGMA
             = Inr (Triple (Some g) (Some vt) (Some sl))
         \<and> shape g = shape volume_1x1x1
         \<and> (\<forall>v \<in> set (voxels (shape volume_1x1x1)). data g v = NaN))"
  using getGaussianDistanceMap_zero_max_nan
          [OF maxVal_volume_1x1x1 [of debugger_resumes], where sigma = DISTMAP_SIGMA]
        maxVal_volume_1x1x1 [of debugger_resumes]
  by blast

text \<open>
  The claim as stated fails on the one-voxel volume with the scribble on its voxel: the
  maximum distance is 0, and the function returns a map, whose value there is NaN.
\<close>

theorem getGaussianDistanceMap_zero_max_counterexample:
  "scribble_maxVal debugger_resumes volume_1x1x1 [(0, 0, 0)] DISTMAP_Z = Some 0
   \<and> gdm_value (getGaussianDistanceMap debugger_resumes volume_1x1x1 [(0, 0, 0)]
                 DISTMAP_Z DISTMAP_SIGMA)
         (0, 0, 0) = Some NaN"
proof
  show "scribble_maxVal debugger_resumes volume_1x1x1 [(0, 0, 0)] DISTMAP_Z = Some 0"
    by (rule maxVal_volume_1x1x1)
  show "gdm_value (getGaussianDistanceMap debugger_resumes volume_1x1x1 [(0, 0, 0)]
                 DISTMAP_Z DISTMAP_SIGMA)
          (0, 0, 0) = Some NaN"
    by (simp add: gdm_value_def getGaussianDistanceMap_def view_of_origin
          volume_1x1x1_def np_index_def sampling_of_def KEY_SAGITTAL_def KEY_AXIAL_def
          distance_transform_edt_def DISTMAP_Z_def np_sub_def)
qed

section \<open>Properties of the session table, \<open>prepare\<close> and \<open>process\<close>\<close>

lemma zeros_case_prod: "(\<lambda>(i, j, k). zeros (f i j k)) = zeros"
  by (simp add: zeros_def fun_eq_iff)

lemma const_upd: "(\<lambda>ch. z)(a := z) = (\<lambda>ch. z)"
  by (simp add: fun_eq_iff)

lemma example_env_sel:
  "platform_system example_env = ''Darwin''"
  "userAgent example_env = ''browser''"
  "new_DICOMwebClient example_env = Some example_client"
  "MODEL example_env = example_model"
  "seg_file_written example_env"
  "requests_delete example_env = Some (Response 200 None)"
  "requests_post example_env = Some (Response 200 (Some ''orthanc-1''))"
  "pdb example_env = debugger_resumes"
  "quit_inside_post_try example_env"
  by (simp_all add: example_env_def)

lemma example_resumes: "pdb example_env bp = Continue"
  by (simp add: example_env_sel debugger_resumes_def)

lemma new_patient_dict_sel:
  "KEY_DATA (new_patient_dict e) = None"
  "KEY_TORCH_DATA (new_patient_dict e) = EmptyDict"
  "KEY_SCRIBBLE_COUNTER (new_patient_dict e) = 0"
  by (simp_all add: new_patient_dict_def)

lemma fetch_example:
  "fetch_case example_env (new_patient_dict example_env\<lparr>KEY_DATA := Some example_data, KEY_TORCH_DATA := EmptyList\<rparr>)
     = (example_session, [RetrieveSeriesCT, RetrieveSeriesPET, RetrieveInstanceGT, RetrieveInstancePred])"
  by (simp add: fetch_case_def getCTArray_def getPTArray_def getSEGs_def getSEGs_step3_def
        example_env_def assign_channel_def zeros_case_prod const_upd example_session_def example_tensor_def
        new_patient_dict_def example_data_def example_search_obj_def)

lemma prepare_example:
  "prepare example_env ''client-1'' example_data initial_state
     = (Inr FreshDataLoaded, example_state,
        [RetrieveSeriesCT, RetrieveSeriesPET, RetrieveInstanceGT, RetrieveInstancePred])"
proof -
  have c: "caseName example_data = ''case-1''" by (simp add: example_data_def)
  show ?thesis
    unfolding prepare_def Let_def c
    by (simp add: initial_state_def lookup_entry_def store_entry_def new_client_dict_def
          fetch_example prepare_return_def getMemoryUsage_def example_state_def
          example_env_sel new_patient_dict_sel)
qed


lemma torch_sum_zeros: "torch_sum shp zeros = Fin 0"
proof -
  have "foldr np_add (map zeros vs) (Fin 0) = Fin 0" for vs :: "voxel list"
    by (induction vs) (simp_all add: zeros_def)
  then show ?thesis by (simp add: torch_sum_def)
qed

lemma lookup_example:
  "lookup_entry example_state ''client-1'' ''case-1'' = Some (SessionEntry example_session)"
  by (simp add: lookup_entry_def example_state_def)

lemma example_session_sel:
  "KEY_TORCH_DATA example_session = Tensor example_tensor"
  "KEY_DATA example_session = Some example_data"
  "KEY_DCM_LIST example_session = [Instance 1, Instance 2]"
  "KEY_SCRIBBLE_COUNTER example_session = 0"
  "KEY_SEG_ORTHANC_ID example_session = None"
  by (simp_all add: example_session_def)

lemma example_tensor_sel:
  "tshape example_tensor = (2, 2, 2)" "chan example_tensor ch = zeros"
  by (simp_all add: example_tensor_def)

lemma lookup_store_entry:
  "lookup_entry (store_entry st c p x) c' p' =
     (if SESSIONSGLOBAL st c = None then lookup_entry st c' p'
      else if c' = c \<and> p' = p then Some x else lookup_entry st c' p')"
  by (auto simp: lookup_entry_def store_entry_def split: option.splits)

lemma lookup_entry_SomeD: "lookup_entry st c p = Some x \<Longrightarrow> SESSIONSGLOBAL st c \<noteq> None"
  by (auto simp: lookup_entry_def split: option.splits)

lemma DCMCLIENT_store_entry: "DCMCLIENT (store_entry st c p x) = DCMCLIENT st"
  by (simp add: store_entry_def split: option.splits)

lemma SESSIONSGLOBAL_store_entry_None:
  "SESSIONSGLOBAL (store_entry st c p x) c' = None \<longleftrightarrow> SESSIONSGLOBAL st c' = None"
  by (auto simp: store_entry_def split: option.splits)

lemma makeSEGDicom_cases:
  "(case makeSEGDicom e d m c s of
      Inl ex \<Rightarrow> True
    | Inr (BareStatus b) \<Rightarrow> \<not> b
    | Inr (StatusAndSession b s') \<Rightarrow> s' = s\<lparr>KEY_SEG_ORTHANC_ID := KEY_SEG_ORTHANC_ID s'\<rparr>)"
  unfolding makeSEGDicom_def set_trace_def quit_raises_def Let_def
  by (simp split: option.splits pdb_command.splits)

lemma getDistanceMap_continue:
  assumes "dbg At_getDistanceMap = Continue"
  shows "fst (getDistanceMap dbg t ty pts z sg) = None"
  using assms
  by (simp add: getDistanceMap_def quit_raises_def Let_def
        split: sum.splits gdm_result.splits option.splits)

lemma process_ready:
  assumes "platform_system e = ''Darwin''"
    and "lookup_entry st cid pn = Some (SessionEntry s)"
    and "KEY_TORCH_DATA s = Tensor t"
    and "torch_sum (tshape t) (chan t 3) = Fin 0"
    and "torch_sum (tshape t) (chan t 4) = Fin 0"
  shows "process e cid pn pts ty st =
           (case getDistanceMap (pdb e) t ty pts DISTMAP_Z DISTMAP_SIGMA of
              (Some ex, t1) \<Rightarrow> (Inl ex, st)
            | (None, t1) \<Rightarrow> process_steps_4_5 e st cid pn s t1)"
  using assms by (simp add: process_def getMemoryUsage_def)

lemma steps_4_5_quit:
  assumes "doInference (pdb e) (MODEL e) t = Inl ex"
  shows "process_steps_4_5 e st cid pn s t = (Inl ex, st)"
  using assms by (simp add: process_steps_4_5_def)

lemma process_not_ready:
  assumes "lookup_entry st cid pn = Some (SessionEntry s)"
    and "\<not> reaches_step_4 e s pts ty"
  shows "snd (process e cid pn pts ty st) = st \<and> (\<exists>x. fst (process e cid pn pts ty st) = Inl x)"
proof (cases "platform_system e = ''Darwin''")
  case False
  then show ?thesis using assms(1) by (simp add: process_def getMemoryUsage_def)
next
  case d: True
  show ?thesis
  proof (cases "KEY_TORCH_DATA s")
    case EmptyDict
    then show ?thesis using assms(1) d by (simp add: process_def getMemoryUsage_def)
  next
    case EmptyList
    then show ?thesis using assms(1) d by (simp add: process_def getMemoryUsage_def)
  next
    case (Tensor t)
    show ?thesis
    proof (cases "torch_sum (tshape t) (chan t 3) = Fin 0
                  \<and> torch_sum (tshape t) (chan t 4) = Fin 0")
      case False
      then show ?thesis
        using assms(1) d Tensor by (auto simp: process_def getMemoryUsage_def)
    next
      case z: True
      note pr = process_ready [OF d assms(1) Tensor z [THEN conjunct1] z [THEN conjunct2],
                               of pts ty]
      obtain r t1 where g: "getDistanceMap (pdb e) t ty pts DISTMAP_Z DISTMAP_SIGMA = (r, t1)"
        by (cases "getDistanceMap (pdb e) t ty pts DISTMAP_Z DISTMAP_SIGMA") auto
      show ?thesis
      proof (cases r)
        case (Some ex)
        then show ?thesis by (simp add: pr g)
      next
        case None
        with assms(2) d Tensor z g obtain ex where
          "doInference (pdb e) (MODEL e) t1 = Inl ex"
          by (auto simp: reaches_step_4_def split: sum.splits)
        then show ?thesis by (simp add: pr g None steps_4_5_quit)
      qed
    qed
  qed
qed

lemma process_no_session:
  assumes "\<nexists>s. lookup_entry st cid pn = Some (SessionEntry s)"
  shows "snd (process e cid pn pts ty st) = st \<and> (\<exists>x. fst (process e cid pn pts ty st) = Inl x)"
  using assms
  by (auto simp: process_def getMemoryUsage_def split: option.splits entry.splits)

lemma steps_4_5_state:
  assumes "lookup_entry st cid pn = Some (SessionEntry s)"
    and "doInference (pdb e) (MODEL e) t = Inr seg"
  shows "\<exists>oid. \<forall>c p. lookup_entry (snd (process_steps_4_5 e st cid pn s t)) c p =
           (if c = cid \<and> p = pn
            then Some (SessionEntry (s\<lparr>KEY_SCRIBBLE_COUNTER := KEY_SCRIBBLE_COUNTER s + 1,
                                        KEY_SEG_ORTHANC_ID := oid\<rparr>))
            else lookup_entry st c p)"
proof -
  let ?s1 = "s\<lparr>KEY_SCRIBBLE_COUNTER := KEY_SCRIBBLE_COUNTER s + 1\<rparr>"
  let ?st1 = "store_entry st cid pn (SessionEntry ?s1)"
  let ?mk = "makeSEGDicom e (DCMCLIENT ?st1) seg cid ?s1"
  have ne: "SESSIONSGLOBAL st cid \<noteq> None" using assms(1) by (rule lookup_entry_SomeD)
  have ne1: "SESSIONSGLOBAL ?st1 cid \<noteq> None" using ne by (simp add: SESSIONSGLOBAL_store_entry_None)
  have s1: "?s1 = s\<lparr>KEY_SCRIBBLE_COUNTER := KEY_SCRIBBLE_COUNTER s + 1,
                    KEY_SEG_ORTHANC_ID := KEY_SEG_ORTHANC_ID s\<rparr>" by simp
  show ?thesis
  proof (cases ?mk)
    case (Inl ex)
    show ?thesis
      using s1 Inl ne assms(2)
      by (intro exI [of _ "KEY_SEG_ORTHANC_ID s"])
         (auto simp: process_steps_4_5_def Let_def lookup_store_entry)
  next
    case (Inr r)
    show ?thesis
    proof (cases r)
      case (BareStatus b)
      show ?thesis
        using s1 Inr BareStatus ne assms(2)
        by (intro exI [of _ "KEY_SEG_ORTHANC_ID s"])
           (auto simp: process_steps_4_5_def Let_def lookup_store_entry)
    next
      case (StatusAndSession b s')
      have s': "s' = ?s1\<lparr>KEY_SEG_ORTHANC_ID := KEY_SEG_ORTHANC_ID s'\<rparr>"
        using makeSEGDicom_cases [where e = e and d = "DCMCLIENT ?st1"
                 and m = seg and c = cid and s = ?s1]
        by (simp add: Inr StatusAndSession)
      have "lookup_entry (snd (process_steps_4_5 e st cid pn s t)) c p =
             (if c = cid \<and> p = pn then Some (SessionEntry s') else lookup_entry st c p)" for c p
        using Inr StatusAndSession ne ne1 assms(2)
        by (auto simp: process_steps_4_5_def Let_def lookup_store_entry split: option.splits)
      then show ?thesis
        by (intro exI [of _ "KEY_SEG_ORTHANC_ID s'"]) (metis s')
    qed
  qed
qed

lemma steps_4_5_client:
  "DCMCLIENT (snd (process_steps_4_5 e st cid pn s t)) = DCMCLIENT st"
  by (auto simp: process_steps_4_5_def Let_def DCMCLIENT_store_entry
           split: sum.splits seg_result.splits option.splits)

lemma assign_channel_priors:
  assumes "priors_zero_td td" and "ch \<noteq> 3" and "ch \<noteq> 4"
    and "assign_channel td ch arr = Some td'"
  shows "priors_zero_td td'"
  using assms
  by (auto simp: priors_zero_td_def assign_channel_def split: torch_data.splits option.splits)

lemma getCTArray_priors:
  assumes "priors_zero_td (KEY_TORCH_DATA pd)"
  shows "priors_zero_td (KEY_TORCH_DATA (fst (snd (getCTArray e pd))))"
  using assms
  by (auto simp: getCTArray_def Let_def priors_zero_td_def split: option.splits prod.splits)

lemma getPTArray_priors:
  assumes "priors_zero_td (KEY_TORCH_DATA pd)"
  shows "priors_zero_td (KEY_TORCH_DATA (fst (snd (getPTArray e pd))))"
  using assms assign_channel_priors [of "KEY_TORCH_DATA pd" 1]
  by (auto simp: getPTArray_def Let_def split: option.splits prod.splits)

lemma getSEGs_step3_priors:
  assumes "priors_zero_td (KEY_TORCH_DATA pd)"
  shows "priors_zero_td (KEY_TORCH_DATA (getSEGs_step3 a pd))"
  using assms assign_channel_priors [of "KEY_TORCH_DATA pd" 2]
  by (auto simp: getSEGs_step3_def split: option.splits)

lemma getSEGs_priors:
  assumes "priors_zero_td (KEY_TORCH_DATA pd)"
  shows "priors_zero_td (KEY_TORCH_DATA (fst (snd (snd (getSEGs e pd)))))"
  using assms getSEGs_step3_priors [OF assms]
  by (simp add: getSEGs_def Let_def split: option.splits)

lemma fetch_case_priors:
  assumes "priors_zero_td (KEY_TORCH_DATA pd)"
  shows "priors_zero_td (KEY_TORCH_DATA (fst (fetch_case e pd)))"
proof -
  obtain a1 pd1 l1 where c: "getCTArray e pd = (a1, pd1, l1)" by (cases "getCTArray e pd") auto
  have p1: "priors_zero_td (KEY_TORCH_DATA pd1)" using getCTArray_priors [OF assms, of e] c by simp
  obtain a2 pd2 l2 where p: "getPTArray e pd1 = (a2, pd2, l2)" by (cases "getPTArray e pd1") auto
  have p2: "priors_zero_td (KEY_TORCH_DATA pd2)" using getPTArray_priors [OF p1, of e] p by simp
  obtain g pr pd3 l3 where s: "getSEGs e pd2 = (g, pr, pd3, l3)" by (cases "getSEGs e pd2") auto
  have p3: "priors_zero_td (KEY_TORCH_DATA pd3)" using getSEGs_priors [OF p2, of e] s by simp
  show ?thesis
    using p1 p2 p3 by (simp add: fetch_case_def c p s split: option.splits)
qed

lemma priors_zero_store:
  assumes "priors_zero st" and "priors_zero_td (KEY_TORCH_DATA s)"
  shows "priors_zero (store_entry st c p (SessionEntry s))"
  using assms by (auto simp: priors_zero_def lookup_store_entry)

lemma priors_zero_client [simp]:
  "priors_zero (st\<lparr>DCMCLIENT := x\<rparr>) = priors_zero st"
  by (simp add: priors_zero_def lookup_entry_def)

lemma priors_zero_new_client:
  assumes "priors_zero st"
  shows "priors_zero (st\<lparr>SESSIONSGLOBAL := (SESSIONSGLOBAL st)(c \<mapsto> new_client_dict e c)\<rparr>)"
  using assms
  by (auto simp: priors_zero_def lookup_entry_def new_client_dict_def split: if_splits option.splits)

lemma prepare_priors_zero:
  assumes "priors_zero st"
  shows "priors_zero (fst (snd (prepare e cid d st)))"
proof -
  let ?pn = "caseName d"
  let ?st1 = "if SESSIONSGLOBAL st cid = None
              then st\<lparr>SESSIONSGLOBAL := (SESSIONSGLOBAL st)(cid \<mapsto> new_client_dict e cid)\<rparr>
              else st"
  let ?st2 = "if lookup_entry ?st1 cid ?pn = None
              then store_entry ?st1 cid ?pn (SessionEntry (new_patient_dict e)) else ?st1"
  have z1: "priors_zero ?st1" using assms priors_zero_new_client by simp
  have "priors_zero_td (KEY_TORCH_DATA (new_patient_dict e))"
    by (simp add: new_patient_dict_def priors_zero_td_def)
  then have z2: "priors_zero ?st2" using z1 priors_zero_store by presburger
  show ?thesis
  proof (cases "lookup_entry ?st2 cid ?pn")
    case None
    then show ?thesis using z2 by (simp add: prepare_def Let_def)
  next
    case (Some x)
    show ?thesis
    proof (cases x)
      case (StrEntry str)
      then show ?thesis using z2 Some by (simp add: prepare_def Let_def)
    next
      case (SessionEntry pd)
      let ?pd1 = "pd\<lparr>KEY_DATA := Some d, KEY_TORCH_DATA := EmptyList\<rparr>"
      have t1: "priors_zero_td (KEY_TORCH_DATA ?pd1)" by (simp add: priors_zero_td_def)
      have z3: "priors_zero (store_entry ?st2 cid ?pn (SessionEntry ?pd1))"
        using priors_zero_store [OF z2 t1] .
      have t2: "priors_zero_td (KEY_TORCH_DATA (fst (fetch_case e ?pd1)))"
        using fetch_case_priors [OF t1] .
      show ?thesis
        using z2 z3 t2 Some SessionEntry
        by (auto simp: prepare_def Let_def priors_zero_store split: prod.splits)
    qed
  qed
qed

lemma reaches_step_4D:
  assumes "reaches_step_4 e s pts ty"
  obtains t t1 seg where "platform_system e = ''Darwin''" "KEY_TORCH_DATA s = Tensor t"
    "torch_sum (tshape t) (chan t 3) = Fin 0" "torch_sum (tshape t) (chan t 4) = Fin 0"
    "getDistanceMap (pdb e) t ty pts DISTMAP_Z DISTMAP_SIGMA = (None, t1)"
    "doInference (pdb e) (MODEL e) t1 = Inr seg"
  using assms
  by (auto simp: reaches_step_4_def
           split: torch_data.splits prod.splits option.splits sum.splits)

lemma doInference_continue:
  assumes "dbg At_doInference = Continue"
  shows "\<exists>seg. doInference dbg m t = Inr seg"
  using assms
  by (simp add: doInference_def set_trace_def quit_raises_def split: option.splits)

lemma reaches_step_4_resumed:
  assumes "pdb e At_getDistanceMap = Continue" and "pdb e At_doInference = Continue"
  shows "reaches_step_4 e s pts ty \<longleftrightarrow>
           platform_system e = ''Darwin''
           \<and> (\<exists>t. KEY_TORCH_DATA s = Tensor t
                 \<and> torch_sum (tshape t) (chan t 3) = Fin 0
                 \<and> torch_sum (tshape t) (chan t 4) = Fin 0)"
proof -
  have g: "\<exists>t1. getDistanceMap (pdb e) t ty pts DISTMAP_Z DISTMAP_SIGMA = (None, t1)" for t
    using getDistanceMap_continue
            [where dbg = "pdb e" and t = t and ty = ty and pts = pts
               and z = DISTMAP_Z and sg = DISTMAP_SIGMA] assms(1)
    by (cases "getDistanceMap (pdb e) t ty pts DISTMAP_Z DISTMAP_SIGMA") auto
  have i: "\<exists>seg. doInference (pdb e) (MODEL e) t1 = Inr seg" for t1
    using doInference_continue [where dbg = "pdb e" and m = "MODEL e" and t = t1] assms(2)
    by simp
  show ?thesis
  proof (cases "KEY_TORCH_DATA s")
    case EmptyDict
    then show ?thesis by (simp add: reaches_step_4_def)
  next
    case EmptyList
    then show ?thesis by (simp add: reaches_step_4_def)
  next
    case (Tensor t)
    from g [of t] obtain t1 where
      g1: "getDistanceMap (pdb e) t ty pts DISTMAP_Z DISTMAP_SIGMA = (None, t1)" by blast
    from i [of t1] obtain seg where i1: "doInference (pdb e) (MODEL e) t1 = Inr seg" by blast
    show ?thesis by (simp add: reaches_step_4_def Tensor g1 i1)
  qed
qed

lemma process_state:
  assumes "lookup_entry st cid pn = Some (SessionEntry s)"
  shows "\<exists>oid. \<forall>c p. lookup_entry (snd (process e cid pn pts ty st)) c p =
           (if c = cid \<and> p = pn
            then Some (SessionEntry
                   (s\<lparr>KEY_SCRIBBLE_COUNTER :=
                          (if reaches_step_4 e s pts ty then KEY_SCRIBBLE_COUNTER s + 1
                           else KEY_SCRIBBLE_COUNTER s),
                      KEY_SEG_ORTHANC_ID := oid\<rparr>))
            else lookup_entry st c p)"
proof (cases "reaches_step_4 e s pts ty")
  case True
  then obtain t t1 seg where h: "platform_system e = ''Darwin''" "KEY_TORCH_DATA s = Tensor t"
    "torch_sum (tshape t) (chan t 3) = Fin 0" "torch_sum (tshape t) (chan t 4) = Fin 0"
    "getDistanceMap (pdb e) t ty pts DISTMAP_Z DISTMAP_SIGMA = (None, t1)"
    "doInference (pdb e) (MODEL e) t1 = Inr seg"
    by (rule reaches_step_4D)
  have pr: "process e cid pn pts ty st = process_steps_4_5 e st cid pn s t1"
    by (simp add: process_ready [OF h(1) assms h(2-4)] h(5))
  show ?thesis
    using steps_4_5_state [OF assms h(6)] by (simp add: pr True)
next
  case False
  have "snd (process e cid pn pts ty st) = st" using process_not_ready [OF assms False] by blast
  moreover have "s = s\<lparr>KEY_SCRIBBLE_COUNTER := KEY_SCRIBBLE_COUNTER s,
                          KEY_SEG_ORTHANC_ID := KEY_SEG_ORTHANC_ID s\<rparr>" by simp
  ultimately show ?thesis
    using assms False by (intro exI [of _ "KEY_SEG_ORTHANC_ID s"]) auto
qed

lemma process_client: "DCMCLIENT (snd (process e cid pn pts ty st)) = DCMCLIENT st"
  by (auto simp: process_def steps_4_5_client split: sum.splits option.splits entry.splits
        torch_data.splits prod.splits)

lemma process_success_reaches:
  assumes "lookup_entry st cid pn = Some (SessionEntry s)"
    and "fst (process e cid pn pts ty st) = Inr resp"
  shows "reaches_step_4 e s pts ty"
  using assms process_not_ready [OF assms(1), of e pts ty] by auto

lemma process_priors_zero:
  assumes "priors_zero st"
  shows "priors_zero (snd (process e cid pn pts ty st))"
proof (cases "\<exists>s. lookup_entry st cid pn = Some (SessionEntry s)")
  case True
  then obtain s where s: "lookup_entry st cid pn = Some (SessionEntry s)" by blast
  from process_state [OF s, of e pts ty] obtain oid where
    l: "\<And>c p. lookup_entry (snd (process e cid pn pts ty st)) c p =
           (if c = cid \<and> p = pn
            then Some (SessionEntry
                   (s\<lparr>KEY_SCRIBBLE_COUNTER :=
                          (if reaches_step_4 e s pts ty then KEY_SCRIBBLE_COUNTER s + 1
                           else KEY_SCRIBBLE_COUNTER s),
                      KEY_SEG_ORTHANC_ID := oid\<rparr>))
            else lookup_entry st c p)"
    by blast
  show ?thesis
    using assms s unfolding priors_zero_def l by (auto split: if_splits)
next
  case False
  then show ?thesis using assms process_no_session [of st cid pn e pts ty] by simp
qed

lemma reachable_priors_zero: "reachable st \<Longrightarrow> priors_zero st"
proof (induction rule: reachable.induct)
  case reachable_initial
  then show ?case by (simp add: priors_zero_def initial_state_def lookup_entry_def)
next
  case (reachable_prepare st e cid d r st2 calls)
  then show ?case using prepare_priors_zero [of st e cid d] by simp
next
  case (reachable_process st e cid pn pts ty r st2)
  then show ?case
    using process_priors_zero [of st e cid pn pts ty] by simp
qed

lemma reachable_example: "reachable example_state"
  using reachable_prepare [OF reachable_initial prepare_example] .

lemma prior_sum:
  assumes "\<forall>v \<in> set vs. prior_value (x v)"
  shows "prior_value (foldr np_add (map x vs) (Fin 0))
       \<and> (foldr np_add (map x vs) (Fin 0) = Fin 0 \<longleftrightarrow> (\<forall>v \<in> set vs. x v = Fin 0))"
  using assms
proof (induction vs)
  case Nil
  then show ?case by simp
next
  case (Cons v vs)
  let ?r = "foldr np_add (map x vs) (Fin 0)"
  have ih: "prior_value ?r" "?r = Fin 0 \<longleftrightarrow> (\<forall>v \<in> set vs. x v = Fin 0)"
    using Cons by auto
  have pv: "prior_value (x v)" using Cons.prems by simp
  have "prior_value (np_add (x v) ?r) \<and> (np_add (x v) ?r = Fin 0 \<longleftrightarrow> x v = Fin 0 \<and> ?r = Fin 0)"
    using pv ih(1) by (cases "x v"; cases ?r) auto
  then show ?case using ih(2) by simp
qed

lemma torch_sum_prior_zero_iff:
  assumes "\<forall>v \<in> set (voxels shp). prior_value (x v)"
  shows "torch_sum shp x = Fin 0 \<longleftrightarrow> (\<forall>v \<in> set (voxels shp). x v = Fin 0)"
  using prior_sum [OF assms] by (simp add: torch_sum_def)

lemma process_assertion:
  assumes "platform_system e = ''Darwin''"
    and "lookup_entry st cid pn = Some (SessionEntry s)"
    and "KEY_TORCH_DATA s = Tensor t"
    and "torch_sum (tshape t) (chan t 3) \<noteq> Fin 0 \<or> torch_sum (tshape t) (chan t 4) \<noteq> Fin 0"
  shows "process e cid pn pts ty st = (Inl AssertionError, st)"
  using assms by (auto simp: process_def getMemoryUsage_def)

section \<open>Polarity dispatch of \<open>getDistanceMap\<close>\<close>

lemma steps_4_5_eval:
  assumes "SESSIONSGLOBAL st cid \<noteq> None"
    and "doInference (pdb e) (MODEL e) t = Inr seg"
    and "makeSEGDicom e (DCMCLIENT st) seg cid
           (s\<lparr>KEY_SCRIBBLE_COUNTER := KEY_SCRIBBLE_COUNTER s + 1\<rparr>) = R"
  shows "process_steps_4_5 e st cid pn s t =
     (case R of
        Inl ex \<Rightarrow>
          (Inl ex,
           store_entry st cid pn
             (SessionEntry (s\<lparr>KEY_SCRIBBLE_COUNTER := KEY_SCRIBBLE_COUNTER s + 1\<rparr>)))
      | Inr (BareStatus b) \<Rightarrow>
          (Inl TypeError,
           store_entry st cid pn
             (SessionEntry (s\<lparr>KEY_SCRIBBLE_COUNTER := KEY_SCRIBBLE_COUNTER s + 1\<rparr>)))
      | Inr (StatusAndSession b s2) \<Rightarrow>
          (if \<not> b then Inl MakeSEGDicomFailed
           else (case KEY_DATA s of
                   None \<Rightarrow> Inl KeyError
                 | Some d \<Rightarrow> Inr (ResponseData (StudyInstanceUID (searchObjCT d))
                                   (KEY_SEG_SERIES_INSTANCE_UID s2) (KEY_SEG_SOP_INSTANCE_UID s2)
                                   (wadoRsRoot (searchObjCT d)))),
           store_entry st cid pn (SessionEntry s2)))"
proof -
  have st: "store_entry (store_entry st cid pn x) cid pn y = store_entry st cid pn y" for x y
    using assms(1) by (auto simp: store_entry_def)
  show ?thesis
    using assms(2,3)
    by (auto simp: process_steps_4_5_def Let_def DCMCLIENT_store_entry st
             split: sum.splits seg_result.splits option.splits)
qed

lemma session_of_store:
  assumes "SESSIONSGLOBAL st cid \<noteq> None"
  shows "session_of (store_entry st cid pn (SessionEntry s)) cid pn = Some s"
  using assms by (auto simp: session_of_def lookup_store_entry)

lemma session_of_example:
  "session_of example_state ''client-1'' ''case-1'' = Some example_session"
  by (simp add: session_of_def lookup_example)

lemma example_state_sel:
  "SESSIONSGLOBAL example_state ''client-1'' \<noteq> None"
  "DCMCLIENT example_state = Some example_client"
  by (simp_all add: example_state_def)

lemma published_state_sel:
  "SESSIONSGLOBAL published_state ''client-1'' \<noteq> None"
  "DCMCLIENT published_state = Some example_client"
  "lookup_entry published_state ''client-1'' ''case-1'' = Some (SessionEntry published_session)"
  by (simp_all add: published_state_def SESSIONSGLOBAL_store_entry_None DCMCLIENT_store_entry
        lookup_store_entry example_state_sel)

lemma published_session_sel:
  "KEY_TORCH_DATA published_session = Tensor example_tensor"
  "KEY_DATA published_session = Some example_data"
  "KEY_DCM_LIST published_session = [Instance 1, Instance 2]"
  "KEY_SCRIBBLE_COUNTER published_session = 1"
  "KEY_SEG_ORTHANC_ID published_session = Some ''orthanc-1''"
  by (simp_all add: published_session_def example_session_def)

lemma example_inference:
  "doInference dbg example_model t =
     Inr (Some \<lparr>shape = tshape t, data = (\<lambda>v. binarize (torch_sigmoid (chan t 2 v)))\<rparr>)"
  by (simp add: doInference_def example_model_def)

lemma example_response:
  "StudyInstanceUID (searchObjCT example_data) = ''1.2.840.1''"
  "wadoRsRoot (searchObjCT example_data) = ''http://localhost:8042/dicom-web''"
  "KEY_SEG_SERIES_INSTANCE_UID example_session = ''1.2.826.2''"
  "KEY_SEG_SOP_INSTANCE_UID example_session = ''1.2.826.1''"
  by (simp_all add: example_data_def example_search_obj_def example_session_def)

lemma process_example_ready:
  assumes "platform_system e = ''Darwin''"
  shows "process e ''client-1'' ''case-1'' pts ty example_state =
           (case getDistanceMap (pdb e) example_tensor ty pts DISTMAP_Z DISTMAP_SIGMA of
              (Some ex, t1) \<Rightarrow> (Inl ex, example_state)
            | (None, t1) \<Rightarrow>
                process_steps_4_5 e example_state ''client-1'' ''case-1'' example_session t1)"
  using process_ready [OF assms lookup_example example_session_sel(1)]
  by (simp add: example_tensor_sel torch_sum_zeros)

lemma process_example_resumed:
  assumes "platform_system e = ''Darwin''" and "pdb e At_getDistanceMap = Continue"
  shows "\<exists>t1. process e ''client-1'' ''case-1'' pts ty example_state =
           process_steps_4_5 e example_state ''client-1'' ''case-1'' example_session t1"
proof -
  obtain r t1 where
    g: "getDistanceMap (pdb e) example_tensor ty pts DISTMAP_Z DISTMAP_SIGMA = (r, t1)"
    by (cases "getDistanceMap (pdb e) example_tensor ty pts DISTMAP_Z DISTMAP_SIGMA") auto
  have "r = None"
    using getDistanceMap_continue
            [where dbg = "pdb e" and t = example_tensor and ty = ty and pts = pts
               and z = DISTMAP_Z and sg = DISTMAP_SIGMA] assms(2)
    by (simp add: g)
  then have "process e ''client-1'' ''case-1'' pts ty example_state =
           process_steps_4_5 e example_state ''client-1'' ''case-1'' example_session t1"
    by (simp add: process_example_ready [OF assms(1)] g)
  then show ?thesis by (rule exI)
qed

lemma process_example_env:
  "process example_env ''client-1'' ''case-1'' pts ty example_state =
     (Inr (ResponseData ''1.2.840.1'' ''1.2.826.2'' ''1.2.826.1''
             ''http://localhost:8042/dicom-web''),
      store_entry example_state ''client-1'' ''case-1'' (SessionEntry published_session))"
proof -
  obtain t1 where
    p: "process example_env ''client-1'' ''case-1'' pts ty example_state =
          process_steps_4_5 example_env example_state ''client-1'' ''case-1'' example_session t1"
    using process_example_resumed [OF example_env_sel(1) example_resumes] by blast
  let ?m = "Some \<lparr>shape = tshape t1, data = (\<lambda>v. binarize (torch_sigmoid (chan t1 2 v)))\<rparr>"
  have inf: "doInference (pdb example_env) (MODEL example_env) t1 = Inr ?m"
    by (simp add: example_env_sel(4) example_inference)
  have mk: "makeSEGDicom example_env (DCMCLIENT example_state) ?m ''client-1''
              (example_session\<lparr>KEY_SCRIBBLE_COUNTER := KEY_SCRIBBLE_COUNTER example_session + 1\<rparr>)
            = Inr (StatusAndSession True published_session)"
    by (simp add: makeSEGDicom_def example_env_sel example_state_sel
          example_session_sel published_session_def)
  show ?thesis
    unfolding p steps_4_5_eval [OF example_state_sel(1) inf mk]
    by (simp add: example_session_sel example_response published_session_def)
qed

text \<open>
  Claim C3, as the code has it. For polarity \<open>'fgd'\<close>, \<open>getDistanceMap\<close> leaves the
  shape and every channel other than channel 3 as they were, channel 4 among them; for
  polarity \<open>'bgd'\<close>, every channel other than channel 4, channel 3 among them. For any
  other polarity it returns the tensor unmodified and raises nothing: it prints a message,
  runs into no breakpoint, and \<open>process\<close> goes on to steps 4.1 to 5 (inference, counter,
  publish) with the unmodified tensor.
\<close>

theorem getDistanceMap_writes_one_channel:
  "(scribbleType = KEY_SCRIBBLE_FGD \<longrightarrow>
      tshape (snd (getDistanceMap dbg t scribbleType points3D distMapZ distMapSigma)) = tshape t
      \<and> (\<forall>ch. ch \<noteq> 3 \<longrightarrow>
            chan (snd (getDistanceMap dbg t scribbleType points3D distMapZ distMapSigma)) ch
              = chan t ch))
   \<and> (scribbleType = KEY_SCRIBBLE_BGD \<longrightarrow>
      tshape (snd (getDistanceMap dbg t scribbleType points3D distMapZ distMapSigma)) = tshape t
      \<and> (\<forall>ch. ch \<noteq> 4 \<longrightarrow>
            chan (snd (getDistanceMap dbg t scribbleType points3D distMapZ distMapSigma)) ch
              = chan t ch))
   \<and> (scribbleType \<noteq> KEY_SCRIBBLE_FGD \<and> scribbleType \<noteq> KEY_SCRIBBLE_BGD \<longrightarrow>
      getDistanceMap dbg t scribbleType points3D distMapZ distMapSigma = (None, t)
      \<and> (platform_system e = ''Darwin''
           \<and> lookup_entry st cid pn = Some (SessionEntry s) \<and> KEY_TORCH_DATA s = Tensor t
           \<and> torch_sum (tshape t) (chan t 3) = Fin 0 \<and> torch_sum (tshape t) (chan t 4) = Fin 0
         \<longrightarrow> process e cid pn points3D scribbleType st = process_steps_4_5 e st cid pn s t))"
proof -
  have other: "getDistanceMap d t scribbleType points3D z sg = (None, t)"
    if "scribbleType \<noteq> KEY_SCRIBBLE_FGD" "scribbleType \<noteq> KEY_SCRIBBLE_BGD"
    for d z sg
    using that by (simp add: getDistanceMap_def)
  have fgd: "tshape (snd (getDistanceMap dbg t KEY_SCRIBBLE_FGD points3D distMapZ distMapSigma))
               = tshape t
      \<and> (\<forall>ch. ch \<noteq> 3 \<longrightarrow>
            chan (snd (getDistanceMap dbg t KEY_SCRIBBLE_FGD points3D distMapZ distMapSigma)) ch
              = chan t ch)"
    by (simp add: getDistanceMap_def split: sum.splits gdm_result.splits option.splits)
  have bgd: "tshape (snd (getDistanceMap dbg t KEY_SCRIBBLE_BGD points3D distMapZ distMapSigma))
               = tshape t
      \<and> (\<forall>ch. ch \<noteq> 4 \<longrightarrow>
            chan (snd (getDistanceMap dbg t KEY_SCRIBBLE_BGD points3D distMapZ distMapSigma)) ch
              = chan t ch)"
    by (simp add: getDistanceMap_def KEY_SCRIBBLE_FGD_def KEY_SCRIBBLE_BGD_def
          split: sum.splits gdm_result.splits option.splits)
  have proc: "process e cid pn points3D scribbleType st = process_steps_4_5 e st cid pn s t"
    if "scribbleType \<noteq> KEY_SCRIBBLE_FGD" "scribbleType \<noteq> KEY_SCRIBBLE_BGD"
      and "platform_system e = ''Darwin''
           \<and> lookup_entry st cid pn = Some (SessionEntry s) \<and> KEY_TORCH_DATA s = Tensor t
           \<and> torch_sum (tshape t) (chan t 3) = Fin 0 \<and> torch_sum (tshape t) (chan t 4) = Fin 0"
    using process_ready [of e st cid pn s t points3D scribbleType] that(3)
    by (simp add: other [OF that(1,2)])
  show ?thesis
    using fgd bgd proc other [of dbg distMapZ distMapSigma] by auto
qed

theorem getDistanceMap_writes_one_channel_witness:
  "chan (snd (getDistanceMap debugger_resumes example_tensor KEY_SCRIBBLE_FGD [(0, 0, 0)]
                DISTMAP_Z DISTMAP_SIGMA)) 4
     = chan example_tensor 4
   \<and> chan (snd (getDistanceMap debugger_resumes example_tensor KEY_SCRIBBLE_BGD [(0, 0, 0)]
                  DISTMAP_Z DISTMAP_SIGMA)) 3
     = chan example_tensor 3
   \<and> ''xyz'' \<noteq> KEY_SCRIBBLE_FGD \<and> ''xyz'' \<noteq> KEY_SCRIBBLE_BGD
   \<and> getDistanceMap debugger_resumes example_tensor ''xyz'' [(0, 0, 0)] DISTMAP_Z DISTMAP_SIGMA
       = (None, example_tensor)
   \<and> process example_env ''client-1'' ''case-1'' [(0, 0, 0)] ''xyz'' example_state
     = process_steps_4_5 example_env example_state ''client-1'' ''case-1'' example_session
         example_tensor"
proof -
  have x: "''xyz'' \<noteq> KEY_SCRIBBLE_FGD \<and> ''xyz'' \<noteq> KEY_SCRIBBLE_BGD"
    by (simp add: KEY_SCRIBBLE_FGD_def KEY_SCRIBBLE_BGD_def)
  have z: "torch_sum (tshape example_tensor) (chan example_tensor 3) = Fin 0"
    "torch_sum (tshape example_tensor) (chan example_tensor 4) = Fin 0"
    by (simp_all add: example_tensor_sel torch_sum_zeros)
  have n: "(4::nat) \<noteq> 3" "(3::nat) \<noteq> 4" by simp_all
  have ready: "platform_system example_env = ''Darwin''
           \<and> lookup_entry example_state ''client-1'' ''case-1'' = Some (SessionEntry example_session)
           \<and> KEY_TORCH_DATA example_session = Tensor example_tensor
           \<and> torch_sum (tshape example_tensor) (chan example_tensor 3) = Fin 0
           \<and> torch_sum (tshape example_tensor) (chan example_tensor 4) = Fin 0"
    by (intro conjI) (rule example_env_sel(1) lookup_example example_session_sel(1) z)+
  note F = getDistanceMap_writes_one_channel
             [where scribbleType = KEY_SCRIBBLE_FGD and dbg = debugger_resumes
                and t = example_tensor and ?points3D = "[(0, 0, 0)]"
                and distMapZ = DISTMAP_Z and distMapSigma = DISTMAP_SIGMA]
  note B = getDistanceMap_writes_one_channel
             [where scribbleType = KEY_SCRIBBLE_BGD and dbg = debugger_resumes
                and t = example_tensor and ?points3D = "[(0, 0, 0)]"
                and distMapZ = DISTMAP_Z and distMapSigma = DISTMAP_SIGMA]
  note X = getDistanceMap_writes_one_channel
             [where scribbleType = "''xyz''" and dbg = debugger_resumes
                and t = example_tensor and ?points3D = "[(0, 0, 0)]"
                and distMapZ = DISTMAP_Z and distMapSigma = DISTMAP_SIGMA
                and e = example_env and st = example_state and cid = "''client-1''"
                and pn = "''case-1''" and s = example_session]
  note F1 = F [THEN conjunct1, THEN mp, OF refl, THEN conjunct2, rule_format, OF n(1)]
  note B1 = B [THEN conjunct2, THEN conjunct1, THEN mp, OF refl, THEN conjunct2, rule_format,
               OF n(2)]
  note X1 = X [THEN conjunct2, THEN conjunct2, THEN mp, OF x]
  note X2 = X1 [THEN conjunct1]
  note X3 = X1 [THEN conjunct2, THEN mp, OF ready]
  show ?thesis
    by (intro conjI) (rule F1 B1 x [THEN conjunct1] x [THEN conjunct2] X2 X3)+
qed

text \<open>
  The claim as stated fails for the polarity \<open>'xyz'\<close>: no unsupported-scribble-type
  condition reaches the caller, the request ends with the success response.
\<close>

theorem unknown_polarity_counterexample:
  "''xyz'' \<noteq> KEY_SCRIBBLE_FGD \<and> ''xyz'' \<noteq> KEY_SCRIBBLE_BGD
   \<and> fst (process example_env ''client-1'' ''case-1'' [(0, 0, 0)] ''xyz'' example_state)
     = Inr (ResponseData ''1.2.840.1'' ''1.2.826.2'' ''1.2.826.1''
              ''http://localhost:8042/dicom-web'')"
  by (simp add: process_example_env KEY_SCRIBBLE_FGD_def KEY_SCRIBBLE_BGD_def)

section \<open>Scribbles that span more than one plane\<close>

lemma getViewTypeAndSliceId_None:
  assumes "\<nexists>c. agree pts 0 c" and "\<nexists>c. agree pts 1 c" and "\<nexists>c. agree pts 2 c"
  shows "getViewTypeAndSliceId dbg pts = Inr (None, None)"
proof -
  have "pts \<noteq> []" using assms(1) by (auto simp: agree_def)
  then show ?thesis
    using assms
    by (simp add: getViewTypeAndSliceId_def view_loop_step del: view_loop.simps(2))
qed

lemma ambiguous_getGaussianDistanceMap:
  assumes "\<nexists>c. agree pts 0 c" and "\<nexists>c. agree pts 1 c" and "\<nexists>c. agree pts 2 c"
  shows "getGaussianDistanceMap dbg a pts z sg = Inr BareNone"
  by (simp add: getGaussianDistanceMap_def getViewTypeAndSliceId_None [OF assms])

lemma ambiguous_getDistanceMap:
  assumes "\<nexists>c. agree pts 0 c" and "\<nexists>c. agree pts 1 c" and "\<nexists>c. agree pts 2 c"
  shows "getDistanceMap dbg t ty pts z sg =
           (if ty = KEY_SCRIBBLE_FGD \<or> ty = KEY_SCRIBBLE_BGD
            then quit_raises dbg At_getDistanceMap else None, t)"
  by (simp add: getDistanceMap_def Let_def ambiguous_getGaussianDistanceMap [OF assms])

lemma quit_raises_cases:
  "quit_raises dbg bp = (if dbg bp = Quit then Some BdbQuit else None)"
  by (simp add: quit_raises_def split: pdb_command.splits)

text \<open>
  Claim C4, as the code has it. For every point set in which no axis carries a single
  shared coordinate value, \<open>getGaussianDistanceMap\<close> returns no map (the bare \<open>None\<close>
  of its early return) and \<open>getDistanceMap\<close> leaves the tensor unmodified, so no prior
  is written into any channel. For the polarities \<open>'fgd'\<close> and \<open>'bgd'\<close> the bare \<open>None\<close>
  cannot be unpacked, and the \<open>except\<close> clause of \<open>getDistanceMap\<close> stops at its
  breakpoint: \<open>getDistanceMap\<close> ends with \<open>BdbQuit\<close> exactly when the debugger is quit
  there. So, for a session that holds a tensor whose prior channels pass the assertion:
  when the debugger is quit, \<open>process\<close> fails with \<open>BdbQuit\<close> before inference, counter
  and publish, and leaves the server state as it was; when the debugger is resumed, and
  for any other polarity, the request does not fail on account of the points, and
  \<open>process\<close> goes on to steps 4.1 to 5 (inference, counter, publish) with the unmodified
  tensor.
\<close>

theorem ambiguous_scribble_writes_no_prior:
  assumes "\<nexists>c. agree points3D 0 c" and "\<nexists>c. agree points3D 1 c"
    and "\<nexists>c. agree points3D 2 c"
  shows "getGaussianDistanceMap dbg ctArray points3D distZ sigma = Inr BareNone
       \<and> snd (getDistanceMap dbg t scribbleType points3D distZ sigma) = t
       \<and> fst (getDistanceMap dbg t scribbleType points3D distZ sigma) =
           (if (scribbleType = KEY_SCRIBBLE_FGD \<or> scribbleType = KEY_SCRIBBLE_BGD)
               \<and> dbg At_getDistanceMap = Quit
            then Some BdbQuit else None)
       \<and> (platform_system e = ''Darwin''
            \<and> lookup_entry st cid pn = Some (SessionEntry s) \<and> KEY_TORCH_DATA s = Tensor t
            \<and> torch_sum (tshape t) (chan t 3) = Fin 0 \<and> torch_sum (tshape t) (chan t 4) = Fin 0
          \<longrightarrow> process e cid pn points3D scribbleType st =
                (if (scribbleType = KEY_SCRIBBLE_FGD \<or> scribbleType = KEY_SCRIBBLE_BGD)
                    \<and> pdb e At_getDistanceMap = Quit
                 then (Inl BdbQuit, st)
                 else process_steps_4_5 e st cid pn s t))"
proof -
  have g: "getGaussianDistanceMap dbg ctArray points3D distZ sigma = Inr BareNone"
    using assms by (rule ambiguous_getGaussianDistanceMap)
  have d: "getDistanceMap d t scribbleType points3D z sg =
             (if (scribbleType = KEY_SCRIBBLE_FGD \<or> scribbleType = KEY_SCRIBBLE_BGD)
                 \<and> d At_getDistanceMap = Quit
              then Some BdbQuit else None, t)" for d z sg
    by (simp add: ambiguous_getDistanceMap [OF assms] quit_raises_cases)
  have p: "process e cid pn points3D scribbleType st =
                (if (scribbleType = KEY_SCRIBBLE_FGD \<or> scribbleType = KEY_SCRIBBLE_BGD)
                    \<and> pdb e At_getDistanceMap = Quit
                 then (Inl BdbQuit, st)
                 else process_steps_4_5 e st cid pn s t)"
    if "platform_system e = ''Darwin''
            \<and> lookup_entry st cid pn = Some (SessionEntry s) \<and> KEY_TORCH_DATA s = Tensor t
            \<and> torch_sum (tshape t) (chan t 3) = Fin 0 \<and> torch_sum (tshape t) (chan t 4) = Fin 0"
    using process_ready [of e st cid pn s t points3D scribbleType] that
    by (simp add: d)
  show ?thesis
    using g p by (simp add: d)
qed

lemma agree_diagonal:
  "\<nexists>c. agree [(0, 0, 0), (1, 1, 1)] 0 c"
  "\<nexists>c. agree [(0, 0, 0), (1, 1, 1)] 1 c"
  "\<nexists>c. agree [(0, 0, 0), (1, 1, 1)] 2 c"
  by (auto simp: agree_def)

lemma env_debugger_quits_sel:
  "platform_system env_debugger_quits = ''Darwin''"
  "MODEL env_debugger_quits = example_model"
  "pdb env_debugger_quits bp = Quit"
  "seg_file_written env_debugger_quits"
  "requests_post env_debugger_quits = Some (Response 200 (Some ''orthanc-1''))"
  by (simp_all add: env_debugger_quits_def example_env_def debugger_quits_def)

theorem ambiguous_scribble_writes_no_prior_witness:
  "getGaussianDistanceMap debugger_quits volume_1x1x2 [(0, 0, 0), (1, 1, 1)]
       DISTMAP_Z DISTMAP_SIGMA = Inr BareNone
   \<and> snd (getDistanceMap debugger_quits example_tensor KEY_SCRIBBLE_FGD [(0, 0, 0), (1, 1, 1)]
            DISTMAP_Z DISTMAP_SIGMA) = example_tensor
   \<and> fst (getDistanceMap debugger_quits example_tensor KEY_SCRIBBLE_FGD [(0, 0, 0), (1, 1, 1)]
            DISTMAP_Z DISTMAP_SIGMA) = Some BdbQuit
   \<and> fst (getDistanceMap debugger_resumes example_tensor KEY_SCRIBBLE_FGD [(0, 0, 0), (1, 1, 1)]
            DISTMAP_Z DISTMAP_SIGMA) = None
   \<and> process env_debugger_quits ''client-1'' ''case-1'' [(0, 0, 0), (1, 1, 1)] KEY_SCRIBBLE_FGD
       example_state
       = (Inl BdbQuit, example_state)
   \<and> process example_env ''client-1'' ''case-1'' [(0, 0, 0), (1, 1, 1)] KEY_SCRIBBLE_FGD
       example_state
       = process_steps_4_5 example_env example_state ''client-1'' ''case-1'' example_session
           example_tensor"
proof -
  have z: "torch_sum (tshape example_tensor) (chan example_tensor 3) = Fin 0"
    "torch_sum (tshape example_tensor) (chan example_tensor 4) = Fin 0"
    by (simp_all add: example_tensor_sel torch_sum_zeros)
  have ready: "platform_system e = ''Darwin''
           \<and> lookup_entry example_state ''client-1'' ''case-1'' = Some (SessionEntry example_session)
           \<and> KEY_TORCH_DATA example_session = Tensor example_tensor
           \<and> torch_sum (tshape example_tensor) (chan example_tensor 3) = Fin 0
           \<and> torch_sum (tshape example_tensor) (chan example_tensor 4) = Fin 0"
    if "platform_system e = ''Darwin''" for e
    by (intro conjI) (rule that lookup_example example_session_sel(1) z)+
  have q: "(KEY_SCRIBBLE_FGD = KEY_SCRIBBLE_FGD \<or> KEY_SCRIBBLE_FGD = KEY_SCRIBBLE_BGD)
             \<and> debugger_quits At_getDistanceMap = Quit"
    by (simp add: debugger_quits_def)
  have r: "\<not> ((KEY_SCRIBBLE_FGD = KEY_SCRIBBLE_FGD \<or> KEY_SCRIBBLE_FGD = KEY_SCRIBBLE_BGD)
             \<and> debugger_resumes At_getDistanceMap = Quit)"
    by (simp add: debugger_resumes_def)
  have qe: "(KEY_SCRIBBLE_FGD = KEY_SCRIBBLE_FGD \<or> KEY_SCRIBBLE_FGD = KEY_SCRIBBLE_BGD)
             \<and> pdb env_debugger_quits At_getDistanceMap = Quit"
    by (simp add: env_debugger_quits_sel)
  have re: "\<not> ((KEY_SCRIBBLE_FGD = KEY_SCRIBBLE_FGD \<or> KEY_SCRIBBLE_FGD = KEY_SCRIBBLE_BGD)
             \<and> pdb example_env At_getDistanceMap = Quit)"
    by (simp add: example_resumes)
  note Q = ambiguous_scribble_writes_no_prior
             [OF agree_diagonal,
              where dbg = debugger_quits and ctArray = volume_1x1x2 and distZ = DISTMAP_Z
                and sigma = DISTMAP_SIGMA and t = example_tensor
                and scribbleType = KEY_SCRIBBLE_FGD and e = env_debugger_quits
                and st = example_state and cid = "''client-1''" and pn = "''case-1''"
                and s = example_session]
  note R = ambiguous_scribble_writes_no_prior
             [OF agree_diagonal,
              where dbg = debugger_resumes and ctArray = volume_1x1x2 and distZ = DISTMAP_Z
                and sigma = DISTMAP_SIGMA and t = example_tensor
                and scribbleType = KEY_SCRIBBLE_FGD and e = example_env
                and st = example_state and cid = "''client-1''" and pn = "''case-1''"
                and s = example_session]
  note Q1 = Q [THEN conjunct1]
  note Q2 = Q [THEN conjunct2, THEN conjunct1]
  note Q3 = Q [THEN conjunct2, THEN conjunct2, THEN conjunct1, unfolded if_P [OF q]]
  note R3 = R [THEN conjunct2, THEN conjunct2, THEN conjunct1, unfolded if_not_P [OF r]]
  note Q4 = Q [THEN conjunct2, THEN conjunct2, THEN conjunct2, THEN mp,
               OF ready [OF env_debugger_quits_sel(1)], unfolded if_P [OF qe]]
  note R4 = R [THEN conjunct2, THEN conjunct2, THEN conjunct2, THEN mp,
               OF ready [OF example_env_sel(1)], unfolded if_not_P [OF re]]
  show ?thesis
    by (intro conjI) (rule Q1 Q2 Q3 R3 Q4 R4)+
qed

lemma process_unknown_polarity_quits:
  "process env_debugger_quits ''client-1'' ''case-1'' pts ''xyz'' example_state =
     (Inr (ResponseData ''1.2.840.1'' ''1.2.826.2'' ''1.2.826.1''
             ''http://localhost:8042/dicom-web''),
      store_entry example_state ''client-1'' ''case-1'' (SessionEntry published_session))"
proof -
  have g: "getDistanceMap (pdb env_debugger_quits) example_tensor ''xyz'' pts
             DISTMAP_Z DISTMAP_SIGMA = (None, example_tensor)"
    by (simp add: getDistanceMap_def KEY_SCRIBBLE_FGD_def KEY_SCRIBBLE_BGD_def)
  have p: "process env_debugger_quits ''client-1'' ''case-1'' pts ''xyz'' example_state =
          process_steps_4_5 env_debugger_quits example_state ''client-1'' ''case-1''
            example_session example_tensor"
    by (simp add: process_example_ready [OF env_debugger_quits_sel(1)] g)
  let ?m = "Some \<lparr>shape = tshape example_tensor,
                   data = (\<lambda>v. binarize (torch_sigmoid (chan example_tensor 2 v)))\<rparr>"
  have inf: "doInference (pdb env_debugger_quits) (MODEL env_debugger_quits) example_tensor
               = Inr ?m"
    by (simp add: env_debugger_quits_sel(2) example_inference)
  have mk: "makeSEGDicom env_debugger_quits (DCMCLIENT example_state) ?m ''client-1''
              (example_session\<lparr>KEY_SCRIBBLE_COUNTER := KEY_SCRIBBLE_COUNTER example_session + 1\<rparr>)
            = Inr (StatusAndSession True published_session)"
    by (simp add: makeSEGDicom_def env_debugger_quits_sel example_state_sel
          example_session_sel published_session_def)
  show ?thesis
    unfolding p steps_4_5_eval [OF example_state_sel(1) inf mk]
    by (simp add: example_session_sel example_response published_session_def)
qed

text \<open>
  The claim as stated fails for the two points \<open>(0,0,0)\<close> and \<open>(1,1,1)\<close>, on which no
  view is detected. With polarity \<open>'fgd'\<close> and the debugger resumed at the breakpoint of
  \<open>getDistanceMap\<close>, the request ends with the success response, the counter incremented
  and the id of the newly posted SEG stored. With a polarity that is neither \<open>'fgd'\<close>
  nor \<open>'bgd'\<close> the request runs into no breakpoint and ends with the success response
  even where the debugger would be quit.
\<close>

theorem ambiguous_scribble_counterexample:
  "getViewTypeAndSliceId (pdb example_env) [(0, 0, 0), (1, 1, 1)] = Inr (None, None)
   \<and> pdb example_env At_getDistanceMap = Continue
   \<and> fst (process example_env ''client-1'' ''case-1'' [(0, 0, 0), (1, 1, 1)] KEY_SCRIBBLE_FGD
            example_state)
     = Inr (ResponseData ''1.2.840.1'' ''1.2.826.2'' ''1.2.826.1''
              ''http://localhost:8042/dicom-web'')
   \<and> counter_of example_state ''client-1'' ''case-1'' = Some 0
   \<and> counter_of (snd (process example_env ''client-1'' ''case-1'' [(0, 0, 0), (1, 1, 1)]
                         KEY_SCRIBBLE_FGD example_state)) ''client-1'' ''case-1'' = Some 1
   \<and> orthanc_id_of (snd (process example_env ''client-1'' ''case-1'' [(0, 0, 0), (1, 1, 1)]
                         KEY_SCRIBBLE_FGD example_state)) ''client-1'' ''case-1''
     = Some (Some ''orthanc-1'')
   \<and> pdb env_debugger_quits At_getDistanceMap = Quit
   \<and> fst (process env_debugger_quits ''client-1'' ''case-1'' [(0, 0, 0), (1, 1, 1)] ''xyz''
            example_state)
     = Inr (ResponseData ''1.2.840.1'' ''1.2.826.2'' ''1.2.826.1''
              ''http://localhost:8042/dicom-web'')"
  by (simp add: getViewTypeAndSliceId_None [OF agree_diagonal] process_example_env
        example_resumes process_unknown_polarity_quits env_debugger_quits_sel(3)
        counter_of_def orthanc_id_of_def session_of_store [OF example_state_sel(1)]
        published_session_sel session_of_example example_session_sel)

section \<open>Publish failures\<close>

lemma env_variants_sel:
  "platform_system env_create_rejected = ''Darwin''"
  "MODEL env_create_rejected = example_model"
  "seg_file_written env_create_rejected"
  "requests_post env_create_rejected = Some (Response 500 None)"
  "platform_system env_delete_rejected = ''Darwin''"
  "MODEL env_delete_rejected = example_model"
  "seg_file_written env_delete_rejected"
  "requests_delete env_delete_rejected = Some (Response 500 None)"
  "requests_post env_delete_rejected = Some (Response 200 (Some ''orthanc-2''))"
  "platform_system env_create_raises = ''Darwin''"
  "MODEL env_create_raises = example_model"
  "seg_file_written env_create_raises"
  "requests_post env_create_raises = None"
  by (simp_all add: env_create_rejected_def env_delete_rejected_def env_create_raises_def
        example_env_def)

lemma env_variants_resume:
  "pdb env_create_rejected bp = Continue"
  "pdb env_delete_rejected bp = Continue"
  "pdb env_create_raises bp = Continue"
  by (simp_all add: env_create_rejected_def env_delete_rejected_def env_create_raises_def
        example_env_def debugger_resumes_def)

lemma published_response:
  "KEY_SEG_SERIES_INSTANCE_UID published_session = ''1.2.826.2''"
  "KEY_SEG_SOP_INSTANCE_UID published_session = ''1.2.826.1''"
  "StudyInstanceUID (searchObjCT example_data) = ''1.2.840.1''"
  "wadoRsRoot (searchObjCT example_data) = ''http://localhost:8042/dicom-web''"
  by (simp_all add: published_session_def example_response)

lemma session_of_published:
  "session_of published_state ''client-1'' ''case-1'' = Some published_session"
  by (simp add: session_of_def published_state_sel)

lemma process_published_resumed:
  assumes "platform_system e = ''Darwin''" and "pdb e At_getDistanceMap = Continue"
  shows "\<exists>t1. process e ''client-1'' ''case-1'' pts ty published_state =
           process_steps_4_5 e published_state ''client-1'' ''case-1'' published_session t1"
proof -
  obtain r t1 where
    g: "getDistanceMap (pdb e) example_tensor ty pts DISTMAP_Z DISTMAP_SIGMA = (r, t1)"
    by (cases "getDistanceMap (pdb e) example_tensor ty pts DISTMAP_Z DISTMAP_SIGMA") auto
  have "r = None"
    using getDistanceMap_continue
            [where dbg = "pdb e" and t = example_tensor and ty = ty and pts = pts
               and z = DISTMAP_Z and sg = DISTMAP_SIGMA] assms(2)
    by (simp add: g)
  then have "process e ''client-1'' ''case-1'' pts ty published_state =
           process_steps_4_5 e published_state ''client-1'' ''case-1'' published_session t1"
    using process_ready [OF assms(1) published_state_sel(3) published_session_sel(1), of pts ty]
    by (simp add: example_tensor_sel torch_sum_zeros g)
  then show ?thesis by (rule exI)
qed

lemma process_create_rejected:
  "process env_create_rejected ''client-1'' ''case-1'' pts ty example_state =
     (Inr (ResponseData ''1.2.840.1'' ''1.2.826.2'' ''1.2.826.1''
             ''http://localhost:8042/dicom-web''),
      store_entry example_state ''client-1'' ''case-1''
        (SessionEntry (example_session\<lparr>KEY_SCRIBBLE_COUNTER := 1\<rparr>)))"
proof -
  obtain t1 where
    p: "process env_create_rejected ''client-1'' ''case-1'' pts ty example_state =
          process_steps_4_5 env_create_rejected example_state ''client-1'' ''case-1''
            example_session t1"
    using process_example_resumed [OF env_variants_sel(1) env_variants_resume(1)] by blast
  let ?m = "Some \<lparr>shape = tshape t1, data = (\<lambda>v. binarize (torch_sigmoid (chan t1 2 v)))\<rparr>"
  have inf: "doInference (pdb env_create_rejected) (MODEL env_create_rejected) t1 = Inr ?m"
    by (simp add: env_variants_sel(2) example_inference)
  have mk: "makeSEGDicom env_create_rejected (DCMCLIENT example_state) ?m ''client-1''
              (example_session\<lparr>KEY_SCRIBBLE_COUNTER := KEY_SCRIBBLE_COUNTER example_session + 1\<rparr>)
            = Inr (StatusAndSession True (example_session\<lparr>KEY_SCRIBBLE_COUNTER := 1\<rparr>))"
    by (simp add: makeSEGDicom_def env_variants_sel example_state_sel example_session_sel)
  show ?thesis
    unfolding p steps_4_5_eval [OF example_state_sel(1) inf mk]
    by (simp add: example_session_sel example_response)
qed

lemma process_delete_rejected:
  "process env_delete_rejected ''client-1'' ''case-1'' pts ty published_state =
     (Inr (ResponseData ''1.2.840.1'' ''1.2.826.2'' ''1.2.826.1''
             ''http://localhost:8042/dicom-web''),
      store_entry published_state ''client-1'' ''case-1''
        (SessionEntry (published_session\<lparr>KEY_SCRIBBLE_COUNTER := 2,
                                           KEY_SEG_ORTHANC_ID := Some ''orthanc-2''\<rparr>)))"
proof -
  obtain t1 where
    p: "process env_delete_rejected ''client-1'' ''case-1'' pts ty published_state =
          process_steps_4_5 env_delete_rejected published_state ''client-1'' ''case-1''
            published_session t1"
    using process_published_resumed [OF env_variants_sel(5) env_variants_resume(2)] by blast
  let ?m = "Some \<lparr>shape = tshape t1, data = (\<lambda>v. binarize (torch_sigmoid (chan t1 2 v)))\<rparr>"
  have inf: "doInference (pdb env_delete_rejected) (MODEL env_delete_rejected) t1 = Inr ?m"
    by (simp add: env_variants_sel(6) example_inference)
  have mk: "makeSEGDicom env_delete_rejected (DCMCLIENT published_state) ?m ''client-1''
              (published_session\<lparr>KEY_SCRIBBLE_COUNTER := KEY_SCRIBBLE_COUNTER published_session + 1\<rparr>)
            = Inr (StatusAndSession True (published_session\<lparr>KEY_SCRIBBLE_COUNTER := 2,
                                           KEY_SEG_ORTHANC_ID := Some ''orthanc-2''\<rparr>))"
    by (simp add: makeSEGDicom_def env_variants_sel published_state_sel published_session_sel)
  show ?thesis
    unfolding p steps_4_5_eval [OF published_state_sel(1) inf mk]
    by (simp add: published_session_sel published_response)
qed

lemma process_create_raises:
  "process env_create_raises ''client-1'' ''case-1'' pts ty example_state =
     (Inl TypeError,
      store_entry example_state ''client-1'' ''case-1''
        (SessionEntry (example_session\<lparr>KEY_SCRIBBLE_COUNTER := 1\<rparr>)))"
proof -
  obtain t1 where
    p: "process env_create_raises ''client-1'' ''case-1'' pts ty example_state =
          process_steps_4_5 env_create_raises example_state ''client-1'' ''case-1''
            example_session t1"
    using process_example_resumed [OF env_variants_sel(10) env_variants_resume(3)] by blast
  let ?m = "Some \<lparr>shape = tshape t1, data = (\<lambda>v. binarize (torch_sigmoid (chan t1 2 v)))\<rparr>"
  have inf: "doInference (pdb env_create_raises) (MODEL env_create_raises) t1 = Inr ?m"
    by (simp add: env_variants_sel(11) example_inference)
  have mk: "makeSEGDicom env_create_raises (DCMCLIENT example_state) ?m ''client-1''
              (example_session\<lparr>KEY_SCRIBBLE_COUNTER := KEY_SCRIBBLE_COUNTER example_session + 1\<rparr>)
            = Inr (BareStatus False)"
    by (simp add: makeSEGDicom_def env_variants_sel example_state_sel example_session_sel)
  show ?thesis
    unfolding p steps_4_5_eval [OF example_state_sel(1) inf mk]
    by (simp add: example_session_sel)
qed

text \<open>
  Claim C5 says that a publish in which the delete is rejected for a reason other than 404,
  or in which the create receives a non-success response, is aborted, leaves
  \<open>segOrthancID\<close> unchanged and reaches the caller as a failure. The code at two such
  inputs: when the archive answers the create with status 500, \<open>makeSEGDicom\<close> still sets
  its status to true and \<open>process\<close> returns the success response; when the archive
  answers the delete of the published SEG with status 500, the create goes ahead, the new
  id replaces the stored one and \<open>process\<close> returns the success response.
\<close>

theorem publish_rejected_reported_as_success:
  "status_code (Response 500 None) \<noteq> 200
   \<and> requests_post env_create_rejected = Some (Response 500 None)
   \<and> fst (process env_create_rejected ''client-1'' ''case-1'' [(0, 0, 0)] KEY_SCRIBBLE_FGD
            example_state)
     = Inr (ResponseData ''1.2.840.1'' ''1.2.826.2'' ''1.2.826.1''
              ''http://localhost:8042/dicom-web'')
   \<and> requests_delete env_delete_rejected = Some (Response 500 None)
   \<and> orthanc_id_of published_state ''client-1'' ''case-1'' = Some (Some ''orthanc-1'')
   \<and> fst (process env_delete_rejected ''client-1'' ''case-1'' [(0, 0, 0)] KEY_SCRIBBLE_FGD
            published_state)
     = Inr (ResponseData ''1.2.840.1'' ''1.2.826.2'' ''1.2.826.1''
              ''http://localhost:8042/dicom-web'')
   \<and> orthanc_id_of (snd (process env_delete_rejected ''client-1'' ''case-1'' [(0, 0, 0)]
                           KEY_SCRIBBLE_FGD published_state)) ''client-1'' ''case-1''
     = Some (Some ''orthanc-2'')"
  by (simp add: process_create_rejected process_delete_rejected env_variants_sel
        orthanc_id_of_def session_of_store [OF published_state_sel(1)]
        session_of_published published_session_sel)

section \<open>The scribble counter\<close>

lemma dom_store_entry:
  "dom (SESSIONSGLOBAL (store_entry st c p x)) = dom (SESSIONSGLOBAL st)"
  by (auto simp: store_entry_def split: option.splits)

lemma lookup_store_entry_ne:
  assumes "SESSIONSGLOBAL st c \<noteq> None"
  shows "lookup_entry (store_entry st c p x) c' p' =
           (if c' = c \<and> p' = p then Some x else lookup_entry st c' p')"
  using assms by (auto simp: lookup_store_entry)

lemma store_entry_ne:
  assumes "SESSIONSGLOBAL st c' \<noteq> None"
  shows "SESSIONSGLOBAL (store_entry st c p x) c' \<noteq> None"
  using assms unfolding SESSIONSGLOBAL_store_entry_None .

lemma lookup_entry_client [simp]:
  "lookup_entry (st\<lparr>DCMCLIENT := x\<rparr>) c p = lookup_entry st c p"
  by (simp add: lookup_entry_def)

text \<open>
  The part of \<open>prepare\<close> after the two dicts have been created where they were missing.
\<close>

lemma prepare_cases:
  obtains st2 where
    "\<And>c p x. lookup_entry st c p = Some x \<Longrightarrow> lookup_entry st2 c p = Some x"
    "SESSIONSGLOBAL st2 cid \<noteq> None"
    "lookup_entry st cid (caseName d) \<noteq> None \<Longrightarrow> st2 = st"
    "DCMCLIENT st2 = DCMCLIENT st"
    "prepare e cid d st =
       (case lookup_entry st2 cid (caseName d) of
          None \<Rightarrow> (Inl KeyError, st2, [])
        | Some (StrEntry str) \<Rightarrow> (Inl TypeError, st2, [])
        | Some (SessionEntry pd) \<Rightarrow>
            if KEY_DATA pd \<noteq> Some d then
              (let pd1 = pd\<lparr>KEY_DATA := Some d, KEY_TORCH_DATA := EmptyList\<rparr>;
                   st3 = store_entry st2 cid (caseName d) (SessionEntry pd1);
                   st4 = (if DCMCLIENT st3 = None
                          then st3\<lparr>DCMCLIENT := new_DICOMwebClient e\<rparr> else st3)
               in if DCMCLIENT st4 \<noteq> None then
                    (prepare_return e False,
                     store_entry st4 cid (caseName d) (SessionEntry (fst (fetch_case e pd1))),
                     snd (fetch_case e pd1))
                  else (prepare_return e False, st4, []))
            else (prepare_return e True, st2, []))"
proof -
  let ?pn = "caseName d"
  let ?st1 = "if SESSIONSGLOBAL st cid = None
              then st\<lparr>SESSIONSGLOBAL := (SESSIONSGLOBAL st)(cid \<mapsto> new_client_dict e cid)\<rparr>
              else st"
  let ?st2 = "if lookup_entry ?st1 cid ?pn = None
              then store_entry ?st1 cid ?pn (SessionEntry (new_patient_dict e)) else ?st1"
  have l1: "lookup_entry ?st1 c p = Some x" if "lookup_entry st c p = Some x" for c p x
    using that by (auto simp: lookup_entry_def split: option.splits)
  have a: "lookup_entry ?st2 c p = Some x" if "lookup_entry st c p = Some x" for c p x
    using l1 [OF that] by (auto simp: lookup_store_entry)
  have "cid \<in> dom (SESSIONSGLOBAL ?st1)" by auto
  then have "cid \<in> dom (SESSIONSGLOBAL ?st2)" by (simp add: dom_store_entry)
  then have b: "SESSIONSGLOBAL ?st2 cid \<noteq> None" by blast
  have c: "?st2 = st" if "lookup_entry st cid ?pn \<noteq> None"
    using that by (auto simp: lookup_entry_def split: option.splits)
  have d: "DCMCLIENT ?st2 = DCMCLIENT st" by (simp add: DCMCLIENT_store_entry)
  have e: "prepare e cid d st =
       (case lookup_entry ?st2 cid (caseName d) of
          None \<Rightarrow> (Inl KeyError, ?st2, [])
        | Some (StrEntry str) \<Rightarrow> (Inl TypeError, ?st2, [])
        | Some (SessionEntry pd) \<Rightarrow>
            if KEY_DATA pd \<noteq> Some d then
              (let pd1 = pd\<lparr>KEY_DATA := Some d, KEY_TORCH_DATA := EmptyList\<rparr>;
                   st3 = store_entry ?st2 cid (caseName d) (SessionEntry pd1);
                   st4 = (if DCMCLIENT st3 = None
                          then st3\<lparr>DCMCLIENT := new_DICOMwebClient e\<rparr> else st3)
               in if DCMCLIENT st4 \<noteq> None then
                    (prepare_return e False,
                     store_entry st4 cid (caseName d) (SessionEntry (fst (fetch_case e pd1))),
                     snd (fetch_case e pd1))
                  else (prepare_return e False, st4, []))
            else (prepare_return e True, ?st2, []))"
    unfolding prepare_def Let_def
    by (simp only: case_prod_beta)
  show ?thesis using that [of ?st2] a b c d e by blast
qed

lemma fetch_case_keeps:
  "KEY_SCRIBBLE_COUNTER (fst (fetch_case e pd)) = KEY_SCRIBBLE_COUNTER pd"
  "KEY_SEG_ORTHANC_ID (fst (fetch_case e pd)) = KEY_SEG_ORTHANC_ID pd"
  "KEY_DATA (fst (fetch_case e pd)) = KEY_DATA pd"
  by (auto simp: fetch_case_def getCTArray_def getPTArray_def getSEGs_def getSEGs_step3_def
        Let_def split: option.splits prod.splits)

lemma prepare_keeps_counter:
  assumes "lookup_entry st c p = Some (SessionEntry s)"
  shows "\<exists>s'. lookup_entry (fst (snd (prepare e cid d st))) c p = Some (SessionEntry s')
           \<and> KEY_SCRIBBLE_COUNTER s' = KEY_SCRIBBLE_COUNTER s
           \<and> KEY_SEG_ORTHANC_ID s' = KEY_SEG_ORTHANC_ID s"
proof -
  obtain st2 where
    l2: "\<And>c p x. lookup_entry st c p = Some x \<Longrightarrow> lookup_entry st2 c p = Some x"
    and ne2: "SESSIONSGLOBAL st2 cid \<noteq> None"
    and prep: "prepare e cid d st =
       (case lookup_entry st2 cid (caseName d) of
          None \<Rightarrow> (Inl KeyError, st2, [])
        | Some (StrEntry str) \<Rightarrow> (Inl TypeError, st2, [])
        | Some (SessionEntry pd) \<Rightarrow>
            if KEY_DATA pd \<noteq> Some d then
              (let pd1 = pd\<lparr>KEY_DATA := Some d, KEY_TORCH_DATA := EmptyList\<rparr>;
                   st3 = store_entry st2 cid (caseName d) (SessionEntry pd1);
                   st4 = (if DCMCLIENT st3 = None
                          then st3\<lparr>DCMCLIENT := new_DICOMwebClient e\<rparr> else st3)
               in if DCMCLIENT st4 \<noteq> None then
                    (prepare_return e False,
                     store_entry st4 cid (caseName d) (SessionEntry (fst (fetch_case e pd1))),
                     snd (fetch_case e pd1))
                  else (prepare_return e False, st4, []))
            else (prepare_return e True, st2, []))"
    by (rule prepare_cases [of st cid d e]) blast
  have s2: "lookup_entry st2 c p = Some (SessionEntry s)" using l2 [OF assms] .
  show ?thesis
  proof (cases "lookup_entry st2 cid (caseName d)")
    case None
    then show ?thesis using s2 by (simp add: prep)
  next
    case (Some x)
    show ?thesis
    proof (cases x)
      case (StrEntry str)
      then show ?thesis using s2 Some by (simp add: prep)
    next
      case (SessionEntry pd)
      let ?pd1 = "pd\<lparr>KEY_DATA := Some d, KEY_TORCH_DATA := EmptyList\<rparr>"
      let ?st3 = "store_entry st2 cid (caseName d) (SessionEntry ?pd1)"
      have ne3: "SESSIONSGLOBAL ?st3 cid \<noteq> None" using ne2 by (rule store_entry_ne)
      have ne4: "SESSIONSGLOBAL (?st3\<lparr>DCMCLIENT := y\<rparr>) cid \<noteq> None" for y
        using ne3 by simp
      have same: "pd = s" if "c = cid" "p = caseName d"
        using that s2 Some SessionEntry by simp
      show ?thesis
        using s2 Some SessionEntry same
        by (auto simp: prep Let_def lookup_store_entry_ne [OF ne2] lookup_store_entry_ne [OF ne3]
              lookup_store_entry_ne [OF ne4] fetch_case_keeps)
    qed
  qed
qed

text \<open>
  Claim C6, as the code has it. In a refine turn of a session, \<open>scribbleCounter\<close> grows by
  exactly one when the turn reaches the counter update of step 4.2, whether or not the
  publish succeeds afterwards, and stays as it is otherwise: then the request fails and
  leaves the whole server state as it was. The turn reaches the counter update when
  \<open>getMemoryUsage\<close> returned, the session holds a tensor, the assertion on the prior
  channels passed, and neither \<open>getDistanceMap\<close> nor \<open>doInference\<close> ended with \<open>BdbQuit\<close>
  at its breakpoint; where the debugger is resumed at these two breakpoints, the first
  three conditions decide. Every successful turn grows the counter by exactly one. A turn
  of another session and a \<open>prepare\<close> request leave it as it is. So it never decreases.
\<close>

theorem scribble_counter_per_turn:
  assumes "lookup_entry st cid pn = Some (SessionEntry s)"
  shows "(\<exists>s'. lookup_entry (snd (process e cid pn points3D scribbleType st)) cid pn
                = Some (SessionEntry s')
            \<and> KEY_SCRIBBLE_COUNTER s' =
                (if reaches_step_4 e s points3D scribbleType
                 then KEY_SCRIBBLE_COUNTER s + 1 else KEY_SCRIBBLE_COUNTER s)
            \<and> KEY_SCRIBBLE_COUNTER s \<le> KEY_SCRIBBLE_COUNTER s'
            \<and> ((\<exists>resp. fst (process e cid pn points3D scribbleType st) = Inr resp)
                 \<longrightarrow> KEY_SCRIBBLE_COUNTER s' = KEY_SCRIBBLE_COUNTER s + 1))
       \<and> (\<not> reaches_step_4 e s points3D scribbleType \<longrightarrow>
             snd (process e cid pn points3D scribbleType st) = st
             \<and> (\<exists>x. fst (process e cid pn points3D scribbleType st) = Inl x))
       \<and> (pdb e At_getDistanceMap = Continue \<and> pdb e At_doInference = Continue \<longrightarrow>
             (reaches_step_4 e s points3D scribbleType \<longleftrightarrow>
                platform_system e = ''Darwin''
                \<and> (\<exists>t. KEY_TORCH_DATA s = Tensor t
                      \<and> torch_sum (tshape t) (chan t 3) = Fin 0
                      \<and> torch_sum (tshape t) (chan t 4) = Fin 0)))
       \<and> (\<forall>cid' pn'. (cid', pn') \<noteq> (cid, pn) \<longrightarrow>
             lookup_entry (snd (process e cid' pn' points3D scribbleType st)) cid pn
               = Some (SessionEntry s))
       \<and> (\<forall>cid' d. \<exists>s'. lookup_entry (fst (snd (prepare e cid' d st))) cid pn
                            = Some (SessionEntry s')
             \<and> KEY_SCRIBBLE_COUNTER s' = KEY_SCRIBBLE_COUNTER s)"
proof -
  from process_state [OF assms, of e points3D scribbleType] obtain oid where
    l: "\<And>c p. lookup_entry (snd (process e cid pn points3D scribbleType st)) c p =
           (if c = cid \<and> p = pn
            then Some (SessionEntry
                   (s\<lparr>KEY_SCRIBBLE_COUNTER :=
                          (if reaches_step_4 e s points3D scribbleType
                           then KEY_SCRIBBLE_COUNTER s + 1
                           else KEY_SCRIBBLE_COUNTER s),
                      KEY_SEG_ORTHANC_ID := oid\<rparr>))
            else lookup_entry st c p)"
    by blast
  have succ: "reaches_step_4 e s points3D scribbleType"
    if "fst (process e cid pn points3D scribbleType st) = Inr resp" for resp
    using process_success_reaches [OF assms that] .
  have first: "\<exists>s'. lookup_entry (snd (process e cid pn points3D scribbleType st)) cid pn
                = Some (SessionEntry s')
            \<and> KEY_SCRIBBLE_COUNTER s' =
                (if reaches_step_4 e s points3D scribbleType
                 then KEY_SCRIBBLE_COUNTER s + 1 else KEY_SCRIBBLE_COUNTER s)
            \<and> KEY_SCRIBBLE_COUNTER s \<le> KEY_SCRIBBLE_COUNTER s'
            \<and> ((\<exists>resp. fst (process e cid pn points3D scribbleType st) = Inr resp)
                 \<longrightarrow> KEY_SCRIBBLE_COUNTER s' = KEY_SCRIBBLE_COUNTER s + 1)"
    using succ by (simp add: l) blast
  have fails: "snd (process e cid pn points3D scribbleType st) = st
             \<and> (\<exists>x. fst (process e cid pn points3D scribbleType st) = Inl x)"
    if "\<not> reaches_step_4 e s points3D scribbleType"
    using process_not_ready [OF assms that] .
  have resumed: "reaches_step_4 e s points3D scribbleType \<longleftrightarrow>
                platform_system e = ''Darwin''
                \<and> (\<exists>t. KEY_TORCH_DATA s = Tensor t
                      \<and> torch_sum (tshape t) (chan t 3) = Fin 0
                      \<and> torch_sum (tshape t) (chan t 4) = Fin 0)"
    if "pdb e At_getDistanceMap = Continue \<and> pdb e At_doInference = Continue"
    using reaches_step_4_resumed [of e s points3D scribbleType] that by blast
  have other: "lookup_entry (snd (process e cid' pn' points3D scribbleType st)) cid pn
               = Some (SessionEntry s)" if "(cid', pn') \<noteq> (cid, pn)" for cid' pn'
  proof (cases "\<exists>s0. lookup_entry st cid' pn' = Some (SessionEntry s0)")
    case True
    then obtain s0 where s0: "lookup_entry st cid' pn' = Some (SessionEntry s0)" by blast
    from process_state [OF s0, of e points3D scribbleType] that assms show ?thesis by auto
  next
    case False
    then show ?thesis
      using process_no_session [of st cid' pn' e points3D scribbleType] assms by simp
  qed
  have prep: "\<exists>s'. lookup_entry (fst (snd (prepare e cid' d st))) cid pn = Some (SessionEntry s')
             \<and> KEY_SCRIBBLE_COUNTER s' = KEY_SCRIBBLE_COUNTER s" for cid' d
    using prepare_keeps_counter [OF assms, of e cid' d] by blast
  show ?thesis
    by (intro conjI impI allI) (rule first fails [THEN conjunct1] fails [THEN conjunct2]
          resumed other prep | assumption)+
qed

lemma reaches_example:
  "reaches_step_4 example_env example_session pts ty"
  using reaches_step_4_resumed [of example_env example_session pts ty]
  by (simp add: example_resumes example_env_sel(1) example_session_sel(1) example_tensor_sel
        torch_sum_zeros)

lemma not_reaches_quit:
  "\<not> reaches_step_4 env_debugger_quits example_session [(0, 0, 0), (1, 1, 1)] KEY_SCRIBBLE_FGD"
  by (simp add: reaches_step_4_def example_session_sel(1)
        ambiguous_getDistanceMap [OF agree_diagonal] quit_raises_cases env_debugger_quits_sel)

theorem scribble_counter_per_turn_witness:
  "(\<exists>s'. lookup_entry (snd (process example_env ''client-1'' ''case-1'' [(0, 0, 0)]
                                KEY_SCRIBBLE_FGD example_state)) ''client-1'' ''case-1''
            = Some (SessionEntry s')
        \<and> KEY_SCRIBBLE_COUNTER s' = KEY_SCRIBBLE_COUNTER example_session + 1)
   \<and> \<not> reaches_step_4 env_debugger_quits example_session [(0, 0, 0), (1, 1, 1)]
         KEY_SCRIBBLE_FGD
   \<and> snd (process env_debugger_quits ''client-1'' ''case-1'' [(0, 0, 0), (1, 1, 1)]
            KEY_SCRIBBLE_FGD example_state) = example_state
   \<and> lookup_entry (snd (process example_env ''client-1'' ''case-2'' [(0, 0, 0)]
                          KEY_SCRIBBLE_FGD example_state)) ''client-1'' ''case-1''
       = Some (SessionEntry example_session)"
proof -
  have n: "(''client-1'', ''case-2'') \<noteq> (''client-1'', ''case-1'')" by simp
  note T = scribble_counter_per_turn
             [OF lookup_example,
              where e = example_env and ?points3D = "[(0, 0, 0)]"
                and scribbleType = KEY_SCRIBBLE_FGD]
  note Q = scribble_counter_per_turn
             [OF lookup_example,
              where e = env_debugger_quits and ?points3D = "[(0, 0, 0), (1, 1, 1)]"
                and scribbleType = KEY_SCRIBBLE_FGD]
  from T [THEN conjunct1, unfolded if_P [OF reaches_example]] obtain s' where
    s': "lookup_entry (snd (process example_env ''client-1'' ''case-1'' [(0, 0, 0)]
                                KEY_SCRIBBLE_FGD example_state)) ''client-1'' ''case-1''
            = Some (SessionEntry s')"
        "KEY_SCRIBBLE_COUNTER s' = KEY_SCRIBBLE_COUNTER example_session + 1"
    by (elim exE conjE)
  have T1: "\<exists>s'. lookup_entry (snd (process example_env ''client-1'' ''case-1'' [(0, 0, 0)]
                                KEY_SCRIBBLE_FGD example_state)) ''client-1'' ''case-1''
            = Some (SessionEntry s')
        \<and> KEY_SCRIBBLE_COUNTER s' = KEY_SCRIBBLE_COUNTER example_session + 1"
    by (rule exI [of _ s'], rule conjI, rule s'(1), rule s'(2))
  note Q2 = Q [THEN conjunct2, THEN conjunct1, THEN mp, OF not_reaches_quit, THEN conjunct1]
  note T4 = T [THEN conjunct2, THEN conjunct2, THEN conjunct2, THEN conjunct1, rule_format,
               OF n]
  show ?thesis
    by (intro conjI) (rule T1 not_reaches_quit Q2 T4)+
qed

text \<open>
  The claim as stated fails for a turn whose create request raises: the request fails
  (the bare status cannot be unpacked), and the counter has gone from 0 to 1.
\<close>

theorem scribble_counter_failed_turn_counterexample:
  "fst (process env_create_raises ''client-1'' ''case-1'' [(0, 0, 0)] KEY_SCRIBBLE_FGD
          example_state) = Inl TypeError
   \<and> counter_of example_state ''client-1'' ''case-1'' = Some 0
   \<and> counter_of (snd (process env_create_raises ''client-1'' ''case-1'' [(0, 0, 0)]
                         KEY_SCRIBBLE_FGD example_state)) ''client-1'' ''case-1'' = Some 1"
  by (simp add: process_create_raises counter_of_def session_of_store [OF example_state_sel(1)]
        session_of_example example_session_sel)

section \<open>What a refine turn changes\<close>

text \<open>
  Claim C10. A \<open>/process\<close> request leaves the archive client and every other entry of the
  session table as they were, and changes at most the fields \<open>scribbleCounter\<close> and
  \<open>segOrthancID\<close> of the session it addresses: the value under \<open>KEY_TORCH_DATA\<close> is
  the same before and after, since the scribble prior and the inference input are
  computed on a copy. A request that finds no session changes nothing. In every state
  the server can reach, channels 3 and 4 of every cached tensor are zero everywhere,
  before and after the request.
\<close>

theorem process_leaves_cached_tensor:
  "DCMCLIENT (snd (process e cid pn points3D scribbleType st)) = DCMCLIENT st
   \<and> (\<forall>c p. (c, p) \<noteq> (cid, pn) \<longrightarrow>
         lookup_entry (snd (process e cid pn points3D scribbleType st)) c p = lookup_entry st c p)
   \<and> (\<forall>s. lookup_entry st cid pn = Some (SessionEntry s) \<longrightarrow>
         (\<exists>n oid. lookup_entry (snd (process e cid pn points3D scribbleType st)) cid pn
                    = Some (SessionEntry (s\<lparr>KEY_SCRIBBLE_COUNTER := n,
                                              KEY_SEG_ORTHANC_ID := oid\<rparr>)))
         \<and> (\<exists>s'. lookup_entry (snd (process e cid pn points3D scribbleType st)) cid pn
                    = Some (SessionEntry s')
                \<and> KEY_TORCH_DATA s' = KEY_TORCH_DATA s))
   \<and> ((\<nexists>s. lookup_entry st cid pn = Some (SessionEntry s)) \<longrightarrow>
         snd (process e cid pn points3D scribbleType st) = st)
   \<and> (reachable st \<longrightarrow>
         priors_zero st \<and> priors_zero (snd (process e cid pn points3D scribbleType st)))"
proof -
  let ?P = "process e cid pn points3D scribbleType st"
  have a: "DCMCLIENT (snd ?P) = DCMCLIENT st" by (rule process_client)
  have d: "snd ?P = st" if "\<nexists>s. lookup_entry st cid pn = Some (SessionEntry s)"
    using process_no_session [OF that, of e points3D scribbleType] by blast
  have c: "(\<exists>n oid. lookup_entry (snd ?P) cid pn
                    = Some (SessionEntry (s\<lparr>KEY_SCRIBBLE_COUNTER := n,
                                              KEY_SEG_ORTHANC_ID := oid\<rparr>)))
         \<and> (\<exists>s'. lookup_entry (snd ?P) cid pn = Some (SessionEntry s')
                \<and> KEY_TORCH_DATA s' = KEY_TORCH_DATA s)"
    if "lookup_entry st cid pn = Some (SessionEntry s)" for s
  proof -
    let ?n = "if reaches_step_4 e s points3D scribbleType
              then KEY_SCRIBBLE_COUNTER s + 1 else KEY_SCRIBBLE_COUNTER s"
    from process_state [OF that, of e points3D scribbleType] obtain oid where
      l: "lookup_entry (snd ?P) cid pn
            = Some (SessionEntry (s\<lparr>KEY_SCRIBBLE_COUNTER := ?n, KEY_SEG_ORTHANC_ID := oid\<rparr>))"
      by auto
    have "\<exists>n oid. lookup_entry (snd ?P) cid pn
                    = Some (SessionEntry (s\<lparr>KEY_SCRIBBLE_COUNTER := n,
                                              KEY_SEG_ORTHANC_ID := oid\<rparr>))"
      using l by blast
    moreover have "\<exists>s'. lookup_entry (snd ?P) cid pn = Some (SessionEntry s')
                \<and> KEY_TORCH_DATA s' = KEY_TORCH_DATA s"
      using l by simp
    ultimately show ?thesis by blast
  qed
  have b: "lookup_entry (snd ?P) c p = lookup_entry st c p" if "(c, p) \<noteq> (cid, pn)" for c p
  proof (cases "\<exists>s. lookup_entry st cid pn = Some (SessionEntry s)")
    case True
    then obtain s where s: "lookup_entry st cid pn = Some (SessionEntry s)" by blast
    from process_state [OF s, of e points3D scribbleType] that show ?thesis by auto
  next
    case False
    then show ?thesis using d by simp
  qed
  have e: "priors_zero st \<and> priors_zero (snd ?P)" if "reachable st"
    using reachable_priors_zero [OF that] process_priors_zero by blast
  show ?thesis using a b c d e by blast
qed

theorem process_leaves_cached_tensor_witness:
  "reachable example_state
   \<and> DCMCLIENT (snd (process example_env ''client-1'' ''case-1'' [(0, 0, 0)] KEY_SCRIBBLE_FGD
                       example_state)) = DCMCLIENT example_state
   \<and> lookup_entry (snd (process example_env ''client-1'' ''case-1'' [(0, 0, 0)] KEY_SCRIBBLE_FGD
                          example_state)) ''client-1'' ''userAgent''
       = lookup_entry example_state ''client-1'' ''userAgent''
   \<and> (\<exists>s'. lookup_entry (snd (process example_env ''client-1'' ''case-1'' [(0, 0, 0)]
                                 KEY_SCRIBBLE_FGD example_state)) ''client-1'' ''case-1''
              = Some (SessionEntry s')
          \<and> KEY_TORCH_DATA s' = KEY_TORCH_DATA example_session)
   \<and> priors_zero (snd (process example_env ''client-1'' ''case-1'' [(0, 0, 0)] KEY_SCRIBBLE_FGD
                         example_state))"
proof -
  have n: "(''client-1'', ''userAgent'') \<noteq> (''client-1'', ''case-1'')" by simp
  note T = process_leaves_cached_tensor
             [of example_env "''client-1''" "''case-1''" "[(0, 0, 0)]" KEY_SCRIBBLE_FGD
                example_state]
  note T1 = T [THEN conjunct1]
  note T2 = T [THEN conjunct2, THEN conjunct1, rule_format, OF n]
  note T3 = T [THEN conjunct2, THEN conjunct2, THEN conjunct1, rule_format, OF lookup_example,
               THEN conjunct2]
  note T5 = T [THEN conjunct2, THEN conjunct2, THEN conjunct2, THEN conjunct2, rule_format,
               OF reachable_example, THEN conjunct2]
  show ?thesis
    by (intro conjI) (rule reachable_example T1 T2 T3 T5)+
qed

section \<open>The prior channels of the cached tensor\<close>

text \<open>
  Claim C8. In every state the server can reach, channels 3 and 4 of a session's tensor
  are zero everywhere; \<open>process\<close> applies the scribble to a copy of that tensor, so they
  are zero immediately before \<open>getDistanceMap\<close> writes to them, and the assertion lets
  the request pass to it. A violation is fatal for the request: when the two channels hold
  values a prior map can hold (non-negative numbers or NaN) and one of them is not zero
  at some voxel, the sum that the assertion tests is not zero, and \<open>process\<close> fails with
  the AssertionError and changes nothing.
\<close>

theorem prior_channels_zero_before_scribble:
  "(reachable st \<and> lookup_entry st cid pn = Some (SessionEntry s) \<and> KEY_TORCH_DATA s = Tensor t
      \<longrightarrow> chan t 3 = zeros \<and> chan t 4 = zeros
        \<and> (platform_system e = ''Darwin'' \<longrightarrow>
             process e cid pn points3D scribbleType st
               = (case getDistanceMap (pdb e) t scribbleType points3D DISTMAP_Z DISTMAP_SIGMA of
                    (Some ex, t1) \<Rightarrow> (Inl ex, st)
                  | (None, t1) \<Rightarrow> process_steps_4_5 e st cid pn s t1)))
   \<and> (platform_system e = ''Darwin''
        \<and> lookup_entry st cid pn = Some (SessionEntry s) \<and> KEY_TORCH_DATA s = Tensor t
        \<and> (\<forall>v \<in> set (voxels (tshape t)). prior_value (chan t 3 v) \<and> prior_value (chan t 4 v))
        \<and> (\<exists>v \<in> set (voxels (tshape t)). chan t 3 v \<noteq> Fin 0 \<or> chan t 4 v \<noteq> Fin 0)
      \<longrightarrow> process e cid pn points3D scribbleType st = (Inl AssertionError, st))"
proof (intro conjI impI)
  assume h: "reachable st \<and> lookup_entry st cid pn = Some (SessionEntry s)
               \<and> KEY_TORCH_DATA s = Tensor t"
  then have "priors_zero st" using reachable_priors_zero [of st] by blast
  then have "priors_zero_td (KEY_TORCH_DATA s)"
    using h unfolding priors_zero_def by blast
  then show z3: "chan t 3 = zeros" and z4: "chan t 4 = zeros"
    using h by (simp_all add: priors_zero_td_def)
  assume d: "platform_system e = ''Darwin''"
  show "process e cid pn points3D scribbleType st
          = (case getDistanceMap (pdb e) t scribbleType points3D DISTMAP_Z DISTMAP_SIGMA of
               (Some ex, t1) \<Rightarrow> (Inl ex, st)
             | (None, t1) \<Rightarrow> process_steps_4_5 e st cid pn s t1)"
    using h d z3 z4 by (intro process_ready) (simp_all add: torch_sum_zeros)
next
  assume h: "platform_system e = ''Darwin''
        \<and> lookup_entry st cid pn = Some (SessionEntry s) \<and> KEY_TORCH_DATA s = Tensor t
        \<and> (\<forall>v \<in> set (voxels (tshape t)). prior_value (chan t 3 v) \<and> prior_value (chan t 4 v))
        \<and> (\<exists>v \<in> set (voxels (tshape t)). chan t 3 v \<noteq> Fin 0 \<or> chan t 4 v \<noteq> Fin 0)"
  then have p3: "\<forall>v \<in> set (voxels (tshape t)). prior_value (chan t 3 v)"
    and p4: "\<forall>v \<in> set (voxels (tshape t)). prior_value (chan t 4 v)"
    by blast+
  have "torch_sum (tshape t) (chan t 3) \<noteq> Fin 0 \<or> torch_sum (tshape t) (chan t 4) \<noteq> Fin 0"
    using h torch_sum_prior_zero_iff [OF p3] torch_sum_prior_zero_iff [OF p4] by blast
  then show "process e cid pn points3D scribbleType st = (Inl AssertionError, st)"
    using h by (intro process_assertion) blast+
qed

lemma stale_state_lookup:
  "lookup_entry stale_state ''client-1'' ''case-1''
     = Some (SessionEntry (example_session\<lparr>KEY_TORCH_DATA := Tensor stale_tensor\<rparr>))"
  by (simp add: stale_state_def lookup_store_entry_ne [OF example_state_sel(1)])

theorem prior_channels_zero_before_scribble_witness:
  "reachable example_state
   \<and> chan example_tensor 3 = zeros \<and> chan example_tensor 4 = zeros
   \<and> process example_env ''client-1'' ''case-1'' [(0, 0, 0)] KEY_SCRIBBLE_FGD example_state
       = (case getDistanceMap (pdb example_env) example_tensor KEY_SCRIBBLE_FGD [(0, 0, 0)]
                 DISTMAP_Z DISTMAP_SIGMA of
            (Some ex, t1) \<Rightarrow> (Inl ex, example_state)
          | (None, t1) \<Rightarrow>
              process_steps_4_5 example_env example_state ''client-1'' ''case-1''
                example_session t1)
   \<and> chan stale_tensor 3 (0, 0, 0) \<noteq> Fin 0
   \<and> process example_env ''client-1'' ''case-1'' [(0, 0, 0)] KEY_SCRIBBLE_FGD stale_state
       = (Inl AssertionError, stale_state)"
proof -
  have v: "(0, 0, 0) \<in> set (voxels (tshape stale_tensor))"
    by (simp add: stale_tensor_def voxels_mem del: voxels.simps)
  have nz: "chan stale_tensor 3 (0, 0, 0) \<noteq> Fin 0" by (simp add: stale_tensor_def)
  have pv: "\<forall>v \<in> set (voxels (tshape stale_tensor)).
              prior_value (chan stale_tensor 3 v) \<and> prior_value (chan stale_tensor 4 v)"
    by (simp add: stale_tensor_def zeros_def)
  have ex: "\<exists>v \<in> set (voxels (tshape stale_tensor)).
              chan stale_tensor 3 v \<noteq> Fin 0 \<or> chan stale_tensor 4 v \<noteq> Fin 0"
    using v nz by blast
  have k: "KEY_TORCH_DATA (example_session\<lparr>KEY_TORCH_DATA := Tensor stale_tensor\<rparr>)
             = Tensor stale_tensor" by simp
  note A = prior_channels_zero_before_scribble
             [where st = example_state and cid = "''client-1''" and pn = "''case-1''"
                and s = example_session and t = example_tensor and e = example_env
                and ?points3D = "[(0, 0, 0)]" and scribbleType = KEY_SCRIBBLE_FGD]
  note B = prior_channels_zero_before_scribble
             [where st = stale_state and cid = "''client-1''" and pn = "''case-1''"
                and s = "example_session\<lparr>KEY_TORCH_DATA := Tensor stale_tensor\<rparr>"
                and t = stale_tensor and e = example_env
                and ?points3D = "[(0, 0, 0)]" and scribbleType = KEY_SCRIBBLE_FGD]
  have ha: "reachable example_state
              \<and> lookup_entry example_state ''client-1'' ''case-1'' = Some (SessionEntry example_session)
              \<and> KEY_TORCH_DATA example_session = Tensor example_tensor"
    by (intro conjI) (rule reachable_example lookup_example example_session_sel(1))+
  have hb: "platform_system example_env = ''Darwin''
        \<and> lookup_entry stale_state ''client-1'' ''case-1''
            = Some (SessionEntry (example_session\<lparr>KEY_TORCH_DATA := Tensor stale_tensor\<rparr>))
        \<and> KEY_TORCH_DATA (example_session\<lparr>KEY_TORCH_DATA := Tensor stale_tensor\<rparr>)
            = Tensor stale_tensor
        \<and> (\<forall>v \<in> set (voxels (tshape stale_tensor)).
              prior_value (chan stale_tensor 3 v) \<and> prior_value (chan stale_tensor 4 v))
        \<and> (\<exists>v \<in> set (voxels (tshape stale_tensor)).
              chan stale_tensor 3 v \<noteq> Fin 0 \<or> chan stale_tensor 4 v \<noteq> Fin 0)"
    by (intro conjI) (rule example_env_sel(1) stale_state_lookup k pv ex)+
  note A1 = A [THEN conjunct1, THEN mp, OF ha]
  note A3 = A1 [THEN conjunct1]
  note A4 = A1 [THEN conjunct2, THEN conjunct1]
  note A5 = A1 [THEN conjunct2, THEN conjunct2, THEN mp, OF example_env_sel(1)]
  note B1 = B [THEN conjunct2, THEN mp, OF hb]
  show ?thesis
    by (intro conjI) (rule reachable_example A3 A4 A5 nz B1)+
qed

section \<open>Reuse of a prepared session\<close>

lemma fetch_case_calls: "\<exists>rest. snd (fetch_case e pd) = RetrieveSeriesCT # rest"
  by (auto simp: fetch_case_def getCTArray_def Let_def split: option.splits prod.splits)

lemma prepare_return_Inr:
  "prepare_return e b \<noteq> Inr (if b then FreshDataLoaded else DataAlreadyLoaded)"
  "platform_system e = ''Darwin'' \<Longrightarrow>
     prepare_return e b = Inr (if b then DataAlreadyLoaded else FreshDataLoaded)"
  by (auto simp: prepare_return_def getMemoryUsage_def)

text \<open>
  Claim C7. Let a session exist under the client identifier and the case name of the
  request. When the stored descriptor equals the incoming one, \<open>prepare\<close> leaves the
  whole server state as it was and makes no archive call, and its status is
  "data already loaded" (reused) wherever \<open>getMemoryUsage\<close> returns. Only a differing
  descriptor leads to archive calls: then the status is never "data already loaded" (it
  is "fresh data loaded" wherever \<open>getMemoryUsage\<close> returns), the new descriptor is stored,
  and the calls start with the retrieval of the CT series whenever an archive client
  exists or can be created, and are none otherwise.
\<close>

theorem prepare_same_descriptor_reuses:
  assumes "lookup_entry st cid (caseName d) = Some (SessionEntry s)"
  shows "(KEY_DATA s = Some d \<longrightarrow>
            snd (prepare e cid d st) = (st, [])
            \<and> (platform_system e = ''Darwin'' \<longrightarrow>
                 fst (prepare e cid d st) = Inr DataAlreadyLoaded))
       \<and> (KEY_DATA s \<noteq> Some d \<longrightarrow>
            fst (prepare e cid d st) \<noteq> Inr DataAlreadyLoaded
            \<and> (platform_system e = ''Darwin'' \<longrightarrow>
                 fst (prepare e cid d st) = Inr FreshDataLoaded)
            \<and> (\<exists>s'. lookup_entry (fst (snd (prepare e cid d st))) cid (caseName d)
                        = Some (SessionEntry s') \<and> KEY_DATA s' = Some d)
            \<and> (DCMCLIENT st \<noteq> None \<or> new_DICOMwebClient e \<noteq> None \<longrightarrow>
                 (\<exists>rest. snd (snd (prepare e cid d st)) = RetrieveSeriesCT # rest))
            \<and> (DCMCLIENT st = None \<and> new_DICOMwebClient e = None \<longrightarrow>
                 snd (snd (prepare e cid d st)) = []))"
proof -
  obtain st2 where
    ne2: "SESSIONSGLOBAL st2 cid \<noteq> None"
    and same: "lookup_entry st cid (caseName d) \<noteq> None \<Longrightarrow> st2 = st"
    and prep: "prepare e cid d st =
       (case lookup_entry st2 cid (caseName d) of
          None \<Rightarrow> (Inl KeyError, st2, [])
        | Some (StrEntry str) \<Rightarrow> (Inl TypeError, st2, [])
        | Some (SessionEntry pd) \<Rightarrow>
            if KEY_DATA pd \<noteq> Some d then
              (let pd1 = pd\<lparr>KEY_DATA := Some d, KEY_TORCH_DATA := EmptyList\<rparr>;
                   st3 = store_entry st2 cid (caseName d) (SessionEntry pd1);
                   st4 = (if DCMCLIENT st3 = None
                          then st3\<lparr>DCMCLIENT := new_DICOMwebClient e\<rparr> else st3)
               in if DCMCLIENT st4 \<noteq> None then
                    (prepare_return e False,
                     store_entry st4 cid (caseName d) (SessionEntry (fst (fetch_case e pd1))),
                     snd (fetch_case e pd1))
                  else (prepare_return e False, st4, []))
            else (prepare_return e True, st2, []))"
    by (rule prepare_cases [of st cid d e]) blast
  have st2: "st2 = st" using same assms by simp
  let ?pd1 = "s\<lparr>KEY_DATA := Some d, KEY_TORCH_DATA := EmptyList\<rparr>"
  let ?st3 = "store_entry st cid (caseName d) (SessionEntry ?pd1)"
  have ne: "SESSIONSGLOBAL st cid \<noteq> None" using ne2 st2 by simp
  have ne3: "SESSIONSGLOBAL ?st3 cid \<noteq> None" using ne by (rule store_entry_ne)
  have ne4: "SESSIONSGLOBAL (?st3\<lparr>DCMCLIENT := y\<rparr>) cid \<noteq> None" for y
    using ne3 by simp
  have d3: "DCMCLIENT ?st3 = DCMCLIENT st" by (rule DCMCLIENT_store_entry)
  have equal: "prepare e cid d st = (prepare_return e True, st, [])" if "KEY_DATA s = Some d"
    using that assms by (simp add: prep st2)
  have differ: "prepare e cid d st =
      (let st4 = (if DCMCLIENT st = None then ?st3\<lparr>DCMCLIENT := new_DICOMwebClient e\<rparr>
                  else ?st3)
       in if DCMCLIENT st4 \<noteq> None then
            (prepare_return e False,
             store_entry st4 cid (caseName d) (SessionEntry (fst (fetch_case e ?pd1))),
             snd (fetch_case e ?pd1))
          else (prepare_return e False, st4, []))"
    if "KEY_DATA s \<noteq> Some d"
    using that assms by (simp add: prep st2 Let_def d3)
  have part1: "snd (prepare e cid d st) = (st, [])
            \<and> (platform_system e = ''Darwin'' \<longrightarrow>
                 fst (prepare e cid d st) = Inr DataAlreadyLoaded)" if "KEY_DATA s = Some d"
    using prepare_return_Inr(2) [of e True] by (simp add: equal [OF that])
  have part2: "fst (prepare e cid d st) \<noteq> Inr DataAlreadyLoaded
            \<and> (platform_system e = ''Darwin'' \<longrightarrow>
                 fst (prepare e cid d st) = Inr FreshDataLoaded)
            \<and> (\<exists>s'. lookup_entry (fst (snd (prepare e cid d st))) cid (caseName d)
                        = Some (SessionEntry s') \<and> KEY_DATA s' = Some d)
            \<and> (DCMCLIENT st \<noteq> None \<or> new_DICOMwebClient e \<noteq> None \<longrightarrow>
                 (\<exists>rest. snd (snd (prepare e cid d st)) = RetrieveSeriesCT # rest))
            \<and> (DCMCLIENT st = None \<and> new_DICOMwebClient e = None \<longrightarrow>
                 snd (snd (prepare e cid d st)) = [])" if "KEY_DATA s \<noteq> Some d"
    using prepare_return_Inr [of e False] fetch_case_calls [of e ?pd1]
    by (auto simp: differ [OF that] Let_def d3 lookup_store_entry_ne [OF ne]
          lookup_store_entry_ne [OF ne3] lookup_store_entry_ne [OF ne4] fetch_case_keeps)
  show ?thesis using part1 part2 by blast
qed

theorem prepare_same_descriptor_reuses_witness:
  "prepare example_env ''client-1'' example_data example_state
     = (Inr DataAlreadyLoaded, example_state, [])
   \<and> fst (prepare example_env ''client-1''
             (example_data\<lparr>searchObjCT := example_search_obj ''ct-2''\<rparr>) example_state)
       = Inr FreshDataLoaded
   \<and> (\<exists>rest. snd (snd (prepare example_env ''client-1''
                   (example_data\<lparr>searchObjCT := example_search_obj ''ct-2''\<rparr>) example_state))
               = RetrieveSeriesCT # rest)"
proof -
  let ?d2 = "example_data\<lparr>searchObjCT := example_search_obj ''ct-2''\<rparr>"
  have c: "caseName example_data = ''case-1''" "caseName ?d2 = ''case-1''"
    by (simp_all add: example_data_def)
  have l1: "lookup_entry example_state ''client-1'' (caseName example_data)
              = Some (SessionEntry example_session)"
    by (simp add: c lookup_example)
  have l2: "lookup_entry example_state ''client-1'' (caseName ?d2)
              = Some (SessionEntry example_session)"
    by (simp add: c lookup_example)
  have ne: "KEY_DATA example_session \<noteq> Some ?d2"
    by (simp add: example_session_sel example_data_def example_search_obj_def)
  have cl: "DCMCLIENT example_state \<noteq> None \<or> new_DICOMwebClient example_env \<noteq> None"
    by (simp add: example_state_sel)
  note A = prepare_same_descriptor_reuses [OF l1, of example_env]
  note B = prepare_same_descriptor_reuses [OF l2, of example_env]
  note A1 = A [THEN conjunct1, THEN mp, OF example_session_sel(2)]
  note A2 = A1 [THEN conjunct1]
  note A3 = A1 [THEN conjunct2, THEN mp, OF example_env_sel(1)]
  note B1 = B [THEN conjunct2, THEN mp, OF ne]
  note B2 = B1 [THEN conjunct2, THEN conjunct1, THEN mp, OF example_env_sel(1)]
  note B3 = B1 [THEN conjunct2, THEN conjunct2, THEN conjunct2, THEN conjunct1, THEN mp, OF cl]
  have "prepare example_env ''client-1'' example_data example_state
          = (fst (prepare example_env ''client-1'' example_data example_state),
             snd (prepare example_env ''client-1'' example_data example_state))"
    by (rule prod.collapse [symmetric])
  then have p: "prepare example_env ''client-1'' example_data example_state
          = (Inr DataAlreadyLoaded, example_state, [])"
    unfolding A2 A3 .
  show ?thesis
    by (intro conjI) (rule p B2 B3)+
qed

section \<open>The scenario points of the specification\<close>

text \<open>
  The two points \<open>(1,1,1)\<close> and \<open>(1,2,2)\<close> agree on axis 0, so a view is detected for
  them.
\<close>

lemma scenario_points_share_axis_0:
  "getViewTypeAndSliceId dbg [(1, 1, 1), (1, 2, 2)] = Inr (Some KEY_SAGITTAL, Some 1)"
  by (simp add: getViewTypeAndSliceId_def column_def np_unique_def)

end
